theory Spec2Isabelle
  imports Complex_Main
begin

section \<open>JavaScript strings\<close>

text \<open>
  A string is a list of code units; the model covers the code units below 256.
  \<open>includesStr\<close> (the method \<open>includes\<close>), \<open>startsWith\<close>, \<open>indexOf\<close> and \<open>trim\<close> are the methods of
  \<open>String.prototype\<close> that the sources call.
\<close>

definition startsWith :: "string \<Rightarrow> string \<Rightarrow> bool" where
  "startsWith s sub = (take (length sub) s = sub)"

fun includesStr :: "string \<Rightarrow> string \<Rightarrow> bool" where
  "includesStr [] sub = (sub = [])"
| "includesStr (c # cs) sub = (startsWith (c # cs) sub \<or> includesStr cs sub)"

fun indexOf :: "string \<Rightarrow> string \<Rightarrow> nat option" where
  "indexOf [] sub = (if sub = [] then Some 0 else None)"
| "indexOf (c # cs) sub =
     (if startsWith (c # cs) sub then Some 0
      else (case indexOf cs sub of None \<Rightarrow> None | Some i \<Rightarrow> Some (Suc i)))"

text \<open>White space and line terminators among the code units below 256.\<close>

definition isWhiteSpace :: "char \<Rightarrow> bool" where
  "isWhiteSpace c = (c \<in> {CHR 0x09, CHR 0x0A, CHR 0x0B, CHR 0x0C, CHR 0x0D, CHR 0x20, CHR 0xA0})"

definition trimStart :: "string \<Rightarrow> string" where
  "trimStart s = dropWhile isWhiteSpace s"

definition trim :: "string \<Rightarrow> string" where
  "trim s = rev (dropWhile isWhiteSpace (rev (dropWhile isWhiteSpace s)))"

text \<open>
  A regular expression \<open>/lit/i\<close> without the unicode flag compares code units after
  canonicalisation, which on the ASCII letters is the upper-case letter and which never
  maps a code unit of 128 or more to an ASCII one.
\<close>

definition canonicalize :: "char \<Rightarrow> char" where
  "canonicalize c =
     (case map_of (zip ''abcdefghijklmnopqrstuvwxyz'' ''ABCDEFGHIJKLMNOPQRSTUVWXYZ'') c of
        None \<Rightarrow> c | Some u \<Rightarrow> u)"

definition test_i :: "string \<Rightarrow> string \<Rightarrow> bool" where
  "test_i lit s = includesStr (map canonicalize s) (map canonicalize lit)"

section \<open>Error types (types/errors.types.ts)\<close>

datatype ArchiveErrorCode =
    INVALID_PATH | PATH_TRAVERSAL | FILE_NOT_FOUND | DIRECTORY_NOT_FOUND
  | ENCRYPTED_ARCHIVE | CORRUPT_ARCHIVE | UNSUPPORTED_FORMAT | EMPTY_ARCHIVE
  | EXECUTABLE_NOT_FOUND | SPAWN_FAILED | PROCESS_TIMEOUT
  | OPERATION_IN_PROGRESS | OPERATION_CANCELLED
  | PERMISSION_DENIED | DISK_FULL | FILE_IN_USE
  | WARNING | FATAL_ERROR | COMMAND_LINE_ERROR | OUT_OF_MEMORY | USER_ABORTED

text \<open>The values stored in the \<open>details\<close> object of an error.\<close>

datatype detail = DStr string | DNum int | DStrs "string list" | DUndefined

record ArchiveError =
  name :: string
  message :: string
  code :: ArchiveErrorCode
  details :: "(string \<times> detail) list"

text \<open>A thrown value: an \<open>ArchiveError\<close> (or a subclass, told apart by \<open>name\<close>) or a plain \<open>Error\<close>.\<close>

datatype jserror = Archive ArchiveError | PlainError string

definition mkArchiveError :: "string \<Rightarrow> ArchiveErrorCode \<Rightarrow> (string \<times> detail) list \<Rightarrow> ArchiveError" where
  "mkArchiveError msg c d = \<lparr>name = ''ArchiveError'', message = msg, code = c, details = d\<rparr>"

definition EncryptedArchiveError :: "string \<Rightarrow> ArchiveError" where
  "EncryptedArchiveError archivePath =
     (mkArchiveError (''Archive is encrypted and cannot be processed: '' @ archivePath)
        ENCRYPTED_ARCHIVE [(''archivePath'', DStr archivePath)])
     \<lparr>name := ''EncryptedArchiveError''\<rparr>"

definition PathTraversalError :: "string \<Rightarrow> string \<Rightarrow> ArchiveError" where
  "PathTraversalError maliciousPath archivePath =
     (mkArchiveError (''Path traversal detected in archive entry: '' @ maliciousPath)
        PATH_TRAVERSAL [(''maliciousPath'', DStr maliciousPath), (''archivePath'', DStr archivePath)])
     \<lparr>name := ''PathTraversalError''\<rparr>"

definition ExecutableNotFoundError :: "string \<Rightarrow> ArchiveError" where
  "ExecutableNotFoundError executablePath =
     (mkArchiveError (''7za executable not found at: '' @ executablePath)
        EXECUTABLE_NOT_FOUND [(''executablePath'', DStr executablePath)])
     \<lparr>name := ''ExecutableNotFoundError''\<rparr>"

definition UnsupportedFormatError :: "string \<Rightarrow> string \<Rightarrow> ArchiveError" where
  "UnsupportedFormatError archivePath extension =
     (mkArchiveError (''Unsupported archive format: '' @ extension @ ''. Only .zip is supported.'')
        UNSUPPORTED_FORMAT [(''archivePath'', DStr archivePath), (''extension'', DStr extension)])
     \<lparr>name := ''UnsupportedFormatError''\<rparr>"

definition OperationInProgressError :: "string \<Rightarrow> ArchiveError" where
  "OperationInProgressError currentOperation =
     (mkArchiveError (''Cannot start new operation. A '' @ currentOperation @ '' operation is already running.'')
        OPERATION_IN_PROGRESS [(''currentOperation'', DStr currentOperation)])
     \<lparr>name := ''OperationInProgressError''\<rparr>"

record StderrPattern =
  pattern :: string
  pcode :: ArchiveErrorCode
  pmessage :: string

definition pat :: "string \<Rightarrow> ArchiveErrorCode \<Rightarrow> string \<Rightarrow> StderrPattern" where
  "pat p c m = \<lparr>pattern = p, pcode = c, pmessage = m\<rparr>"

definition STDERR_PATTERNS :: "StderrPattern list" where
  "STDERR_PATTERNS =
    [pat ''CRC Failed'' CORRUPT_ARCHIVE ''CRC check failed - archive is corrupted'',
     pat ''Data Error'' CORRUPT_ARCHIVE ''Data error - archive is corrupted'',
     pat ''Headers Error'' CORRUPT_ARCHIVE ''Invalid archive headers - archive is corrupted'',
     pat ''Unexpected end of archive'' CORRUPT_ARCHIVE ''Unexpected end of archive - file may be truncated'',
     pat ''Can not open the file as archive'' CORRUPT_ARCHIVE ''Cannot open file as archive - invalid or corrupted'',
     pat ''Is not archive'' CORRUPT_ARCHIVE ''File is not a valid archive'',
     pat ''Access is denied'' PERMISSION_DENIED ''Access denied - permission error'',
     pat ''cannot access the file because it is being used'' FILE_IN_USE ''File is in use by another process'',
     pat ''Sharing violation'' FILE_IN_USE ''Sharing violation - file is locked'',
     pat ''There is not enough space on the disk'' DISK_FULL ''Not enough disk space'',
     pat ''No space left on device'' DISK_FULL ''No space left on device'',
     pat ''Cannot find the file'' FILE_NOT_FOUND ''File not found'',
     pat ''The system cannot find the file'' FILE_NOT_FOUND ''System cannot find the file'',
     pat ''The system cannot find the path'' DIRECTORY_NOT_FOUND ''System cannot find the path'',
     pat ''Wrong password'' ENCRYPTED_ARCHIVE ''Wrong password for encrypted archive'',
     pat ''Enter password'' ENCRYPTED_ARCHIVE ''Archive requires a password'']"

fun exitCodeToErrorCode :: "int \<Rightarrow> ArchiveErrorCode option" where
  "exitCodeToErrorCode exitCode =
     (if exitCode = 0 then None
      else if exitCode = 1 then Some WARNING
      else if exitCode = 2 then Some FATAL_ERROR
      else if exitCode = 7 then Some COMMAND_LINE_ERROR
      else if exitCode = 8 then Some OUT_OF_MEMORY
      else if exitCode = 255 then Some USER_ABORTED
      else Some FATAL_ERROR)"

fun DEFAULT_MESSAGES :: "ArchiveErrorCode \<Rightarrow> string" where
  "DEFAULT_MESSAGES WARNING = ''Operation completed with warnings''"
| "DEFAULT_MESSAGES FATAL_ERROR = ''Fatal error occurred during operation''"
| "DEFAULT_MESSAGES COMMAND_LINE_ERROR = ''Invalid command line arguments''"
| "DEFAULT_MESSAGES OUT_OF_MEMORY = ''Out of memory''"
| "DEFAULT_MESSAGES USER_ABORTED = ''Operation was aborted''"
| "DEFAULT_MESSAGES INVALID_PATH = ''Invalid path''"
| "DEFAULT_MESSAGES PATH_TRAVERSAL = ''Path traversal detected''"
| "DEFAULT_MESSAGES FILE_NOT_FOUND = ''File not found''"
| "DEFAULT_MESSAGES DIRECTORY_NOT_FOUND = ''Directory not found''"
| "DEFAULT_MESSAGES ENCRYPTED_ARCHIVE = ''Archive is encrypted''"
| "DEFAULT_MESSAGES CORRUPT_ARCHIVE = ''Archive is corrupted''"
| "DEFAULT_MESSAGES UNSUPPORTED_FORMAT = ''Unsupported format''"
| "DEFAULT_MESSAGES EMPTY_ARCHIVE = ''Archive is empty''"
| "DEFAULT_MESSAGES EXECUTABLE_NOT_FOUND = ''Executable not found''"
| "DEFAULT_MESSAGES SPAWN_FAILED = ''Failed to spawn process''"
| "DEFAULT_MESSAGES PROCESS_TIMEOUT = ''Process timed out''"
| "DEFAULT_MESSAGES OPERATION_IN_PROGRESS = ''Operation in progress''"
| "DEFAULT_MESSAGES OPERATION_CANCELLED = ''Operation cancelled''"
| "DEFAULT_MESSAGES PERMISSION_DENIED = ''Permission denied''"
| "DEFAULT_MESSAGES DISK_FULL = ''Disk is full''"
| "DEFAULT_MESSAGES FILE_IN_USE = ''File is in use''"

text \<open>The loop over the table returns at the first pattern that matches.\<close>

fun firstMatch :: "StderrPattern list \<Rightarrow> string \<Rightarrow> StderrPattern option" where
  "firstMatch [] stderr = None"
| "firstMatch (p # ps) stderr = (if test_i (pattern p) stderr then Some p else firstMatch ps stderr)"

definition parseStderrForError :: "string \<Rightarrow> (ArchiveErrorCode \<times> string) option" where
  "parseStderrForError stderr =
     (case firstMatch STDERR_PATTERNS stderr of
        None \<Rightarrow> None
      | Some p \<Rightarrow> Some (pcode p, pmessage p))"

definition createErrorFromExitCode :: "int \<Rightarrow> string \<Rightarrow> string \<Rightarrow> ArchiveError" where
  "createErrorFromExitCode exitCode archivePath stderr =
     (case parseStderrForError stderr of
        Some (c, m) \<Rightarrow>
          mkArchiveError m c
            [(''archivePath'', DStr archivePath), (''exitCode'', DNum exitCode), (''stderr'', DStr (trim stderr))]
      | None \<Rightarrow>
          (let errorCode = (case exitCodeToErrorCode exitCode of None \<Rightarrow> FATAL_ERROR | Some c \<Rightarrow> c);
               message0 = DEFAULT_MESSAGES errorCode;
               stderrTrimmed = trim stderr;
               message1 = (if stderrTrimmed \<noteq> [] \<and> length stderrTrimmed < 200
                           then message0 @ '': '' @ stderrTrimmed else message0)
           in mkArchiveError message1 errorCode
                [(''archivePath'', DStr archivePath), (''exitCode'', DNum exitCode),
                 (''stderr'', if stderrTrimmed \<noteq> [] then DStr stderrTrimmed else DUndefined)]))"

section \<open>Archive types (types/archive.types.ts)\<close>

datatype CompressionLevel = STORE | FAST | NORMAL

fun levelVal :: "CompressionLevel \<Rightarrow> nat" where
  "levelVal STORE = 0"
| "levelVal FAST = 1"
| "levelVal NORMAL = 5"

datatype ArchiveOpType = UNDEFINED | COMPRESS | DECOMPRESS | LIST | EXTRACT_SINGLE | UPDATE

text \<open>The reverse mapping \<open>ArchiveOpType[op]\<close> of the numeric enum.\<close>

fun opName :: "ArchiveOpType \<Rightarrow> string" where
  "opName UNDEFINED = ''UNDEFINED''"
| "opName COMPRESS = ''COMPRESS''"
| "opName DECOMPRESS = ''DECOMPRESS''"
| "opName LIST = ''LIST''"
| "opName EXTRACT_SINGLE = ''EXTRACT_SINGLE''"
| "opName UPDATE = ''UPDATE''"

datatype ProcessStatus = STATUS_UNDEFINED | ERROR | SUCCESS | PENDING | QUEUED | RUNNING

fun statusVal :: "ProcessStatus \<Rightarrow> int" where
  "statusVal STATUS_UNDEFINED = -1"
| "statusVal ERROR = 0"
| "statusVal SUCCESS = 1"
| "statusVal PENDING = 2"
| "statusVal QUEUED = 10"
| "statusVal RUNNING = 11"

text \<open>
  A JavaScript number (a double) as far as the sources meet one: a finite double whose
  value is the integer \<open>n\<close> (\<open>Num n\<close>, with \<open>Num 0\<close> for \<open>+0\<close>), \<open>NaN\<close>, the two
  infinities and \<open>-0\<close>.
\<close>

datatype number = Num int | NaN | PosInfinity | NegInfinity | NegZero

text \<open>A \<open>Date\<close> is its time value in milliseconds.\<close>

record FileInfo =
  date :: int
  size :: number
  compressedSize :: "number option"
  filename :: string
  encrypted :: "bool option"
  crc :: "string option"

record ArchiveOpResult =
  success :: bool
  runtime :: real
  optype :: ArchiveOpType
  rmessage :: string
  files :: "FileInfo list"
  basePath :: "string option"
  exitCode :: "int option"

section \<open>The listing parser (utils/sltParser.ts)\<close>

record SltFileEntry =
  path :: "string option"
  esize :: "number option"
  packedSize :: "number option"
  modified :: "string option"
  eencrypted :: "string option"
  ecrc :: "string option"
  attributes :: "string option"

definition emptyEntry :: SltFileEntry where
  "emptyEntry = \<lparr>path = None, esize = None, packedSize = None, modified = None,
                  eencrypted = None, ecrc = None, attributes = None\<rparr>"

text \<open>
  What the sources take from the JavaScript runtime: the current time of \<open>new Date()\<close>,
  the time value of \<open>new Date(s)\<close> (\<open>None\<close> for an invalid date), and the text that
  \<open>Number.prototype.toString\<close> prints for an integral double of magnitude \<open>2 ^ 53\<close> or more
  (the shortest digits that identify the double, in exponent notation from \<open>10 ^ 21\<close>).
\<close>

record runtime_env =
  currentTime :: int
  parseDate :: "string \<Rightarrow> int option"
  largeNumberText :: "int \<Rightarrow> string"

definition isDigit :: "char \<Rightarrow> bool" where
  "isDigit c = (c \<in> set ''0123456789'')"

definition digitVal :: "char \<Rightarrow> nat" where
  "digitVal c = (case map_of (zip ''0123456789'' [0, 1, 2, 3, 4, 5, 6, 7, 8, 9]) c of
                   None \<Rightarrow> 0 | Some d \<Rightarrow> d)"

definition digitsVal :: "string \<Rightarrow> nat" where
  "digitsVal ds = foldl (\<lambda>a c. 10 * a + digitVal c) 0 ds"

text \<open>
  The double nearest to a natural number, ties to the even significand: a number below
  \<open>2 ^ 53\<close> is a double; a larger one keeps its 53 leading bits, rounded; \<open>None\<close> stands for
  the overflow to infinity, from \<open>2 ^ 1024 - 2 ^ 970\<close> on.
\<close>

fun bitLength :: "nat \<Rightarrow> nat" where
  "bitLength n = (if n = 0 then 0 else Suc (bitLength (n div 2)))"

declare bitLength.simps [simp del]

definition roundToDouble :: "nat \<Rightarrow> nat option" where
  "roundToDouble n =
     (if n < 2 ^ 53 then Some n
      else
        (let e = bitLength n - 53;
             q = n div 2 ^ e;
             r = n mod 2 ^ e;
             h = 2 ^ (e - 1);
             q1 = (if h < r \<or> (r = h \<and> odd q) then q + 1 else q);
             v = q1 * 2 ^ e
         in if 2 ^ 1024 \<le> v then None else Some v))"

text \<open>
  \<open>parseInt(value, 10)\<close>: leading white space is skipped, then an optional sign, then
  the longest run of decimal digits; with no digit the result is \<open>NaN\<close>, otherwise the
  double nearest to the integer that the digits write, with the sign (\<open>-0\<close> for a
  negative zero). This is the result of V8, the engine of Node.js, which rounds the digits
  correctly; the language specification also lets an implementation replace the digits
  after the twentieth significant one by zeros.
\<close>

definition parseInt10 :: "string \<Rightarrow> number" where
  "parseInt10 value =
     (let s = trimStart value;
          neg = (s \<noteq> [] \<and> hd s = CHR ''-'');
          s1 = (if s \<noteq> [] \<and> (hd s = CHR ''+'' \<or> hd s = CHR ''-'') then tl s else s);
          ds = takeWhile isDigit s1
      in if ds = [] then NaN
         else (case roundToDouble (digitsVal ds) of
                 None \<Rightarrow> if neg then NegInfinity else PosInfinity
               | Some m \<Rightarrow> if neg then (if m = 0 then NegZero else Num (- int m)) else Num (int m)))"

text \<open>\<open>output.split(/\r?\n/)\<close>, with the piece before the next terminator in \<open>cur\<close>.\<close>

fun splitLines :: "string \<Rightarrow> string \<Rightarrow> string list" where
  "splitLines cur [] = [cur]"
| "splitLines cur [c] = (if c = CHR 0x0A then [cur, []] else [cur @ [c]])"
| "splitLines cur (c # d # cs) =
     (if c = CHR 0x0A then cur # splitLines [] (d # cs)
      else if c = CHR 0x0D \<and> d = CHR 0x0A then cur # splitLines [] cs
      else splitLines (cur @ [c]) (d # cs))"

text \<open>\<open>s.replace(' ', 'T')\<close> replaces the first space only.\<close>

fun replaceFirstSpace :: "string \<Rightarrow> string" where
  "replaceFirstSpace [] = []"
| "replaceFirstSpace (c # cs) = (if c = CHR '' '' then CHR ''T'' # cs else c # replaceFirstSpace cs)"

definition convertToFileInfo :: "runtime_env \<Rightarrow> SltFileEntry \<Rightarrow> FileInfo option" where
  "convertToFileInfo rt entry =
     (case path entry of
        None \<Rightarrow> None
      | Some p \<Rightarrow>
          if p = [] then None
          else if (case attributes entry of None \<Rightarrow> False | Some a \<Rightarrow> includesStr a ''D'') then None
          else
            (let date0 = currentTime rt;
                 date1 = (case modified entry of
                            None \<Rightarrow> date0
                          | Some m \<Rightarrow>
                              if m = [] then date0
                              else (case parseDate rt (replaceFirstSpace m) of
                                      None \<Rightarrow> date0 | Some t \<Rightarrow> t))
             in Some \<lparr>date = date1,
                      size = (case esize entry of None \<Rightarrow> Num 0 | Some n \<Rightarrow> n),
                      compressedSize = packedSize entry,
                      filename = p,
                      encrypted = Some (eencrypted entry = Some ''+''),
                      crc = ecrc entry\<rparr>))"

text \<open>The \<open>switch\<close> on the key of a \<open>key = value\<close> line.\<close>

definition setField :: "string \<Rightarrow> string \<Rightarrow> SltFileEntry \<Rightarrow> SltFileEntry" where
  "setField key value e =
     (if key = ''Path'' then e\<lparr>path := Some value\<rparr>
      else if key = ''Size'' then e\<lparr>esize := Some (parseInt10 value)\<rparr>
      else if key = ''Packed Size'' then e\<lparr>packedSize := Some (parseInt10 value)\<rparr>
      else if key = ''Modified'' then e\<lparr>modified := Some value\<rparr>
      else if key = ''Encrypted'' then e\<lparr>eencrypted := Some value\<rparr>
      else if key = ''CRC'' then e\<lparr>ecrc := Some value\<rparr>
      else if key = ''Attributes'' then e\<lparr>attributes := Some value\<rparr>
      else e)"

text \<open>One iteration of the loop over the lines: the files pushed so far and the current entry.\<close>

definition parseLine :: "runtime_env \<Rightarrow> FileInfo list \<times> SltFileEntry \<Rightarrow> string \<Rightarrow> FileInfo list \<times> SltFileEntry" where
  "parseLine rt st line =
     (let fs = fst st; currentEntry = snd st; trimmed = trim line
      in if trimmed = [] then
           (case convertToFileInfo rt currentEntry of
              None \<Rightarrow> (fs, emptyEntry)
            | Some fileInfo \<Rightarrow> (fs @ [fileInfo], emptyEntry))
         else
           (case indexOf trimmed '' = '' of
              None \<Rightarrow> (fs, currentEntry)
            | Some separatorIndex \<Rightarrow>
                (fs, setField (take separatorIndex trimmed) (drop (separatorIndex + 3) trimmed) currentEntry)))"

definition parseSltString :: "runtime_env \<Rightarrow> string \<Rightarrow> FileInfo list" where
  "parseSltString rt output =
     (let st = foldl (parseLine rt) ([], emptyEntry) (splitLines [] output)
      in case convertToFileInfo rt (snd st) of
           None \<Rightarrow> fst st
         | Some lastFileInfo \<Rightarrow> fst st @ [lastFileInfo])"

definition hasEncryptedFiles :: "FileInfo list \<Rightarrow> bool" where
  "hasEncryptedFiles fs = list_ex (\<lambda>file. encrypted file = Some True) fs"

definition findEncryptedFile :: "FileInfo list \<Rightarrow> FileInfo option" where
  "findEncryptedFile fs = find (\<lambda>file. encrypted file = Some True) fs"

section \<open>Path validation (utils/pathValidation.ts)\<close>

text \<open>
  The functions of the runtime's \<open>path\<close> module that the validator calls. They depend
  on the platform, so the validator takes them as a parameter.
\<close>

record pathmod =
  normalize :: "string \<Rightarrow> string"
  isAbsolute :: "string \<Rightarrow> bool"
  sep :: string

definition validateEntryPath :: "'a pathmod_scheme \<Rightarrow> string \<Rightarrow> string \<Rightarrow> ArchiveError + unit" where
  "validateEntryPath pm entryPath archivePath =
     (let normalized = normalize pm entryPath
      in if isAbsolute pm normalized then Inl (PathTraversalError entryPath archivePath)
         else if startsWith normalized ''..'' \<or> includesStr normalized (''..'' @ sep pm)
                 \<or> includesStr normalized ''../'' \<or> includesStr normalized [CHR ''.'', CHR ''.'', CHR 0x5C]
              then Inl (PathTraversalError entryPath archivePath)
         else if includesStr entryPath [CHR 0x00] then Inl (PathTraversalError entryPath archivePath)
         else Inr ())"

fun validateAllEntries :: "'a pathmod_scheme \<Rightarrow> FileInfo list \<Rightarrow> string \<Rightarrow> ArchiveError + unit" where
  "validateAllEntries pm [] archivePath = Inr ()"
| "validateAllEntries pm (entry # entries) archivePath =
     (case validateEntryPath pm (filename entry) archivePath of
        Inl e \<Rightarrow> Inl e
      | Inr _ \<Rightarrow> validateAllEntries pm entries archivePath)"

definition normalizePath :: "'a pathmod_scheme \<Rightarrow> string \<Rightarrow> string" where
  "normalizePath pm inputPath =
     map (\<lambda>c. if c = CHR 0x5C then CHR ''/'' else c) (normalize pm inputPath)"

definition isSafePath :: "'a pathmod_scheme \<Rightarrow> string \<Rightarrow> bool" where
  "isSafePath pm entryPath = (case validateEntryPath pm entryPath [] of Inl _ \<Rightarrow> False | Inr _ \<Rightarrow> True)"

subsection \<open>The POSIX \<open>path\<close> module\<close>

text \<open>
  \<open>path.posix.normalize\<close> of Node.js: \<open>normalizeString\<close> runs over the indices
  \<open>0 .. path.length\<close> with the state below, resolving \<open>.\<close> and \<open>..\<close> segments and
  dropping repeated separators.
\<close>

record nstate =
  res :: string
  lastSegmentLength :: nat
  lastSlash :: int
  dots :: int
  ccode :: char

fun lastIndexOf :: "string \<Rightarrow> char \<Rightarrow> int" where
  "lastIndexOf [] c = -1"
| "lastIndexOf (x # xs) c =
     (let r = lastIndexOf xs c in if r \<ge> 0 then r + 1 else if x = c then 0 else -1)"

definition slice :: "string \<Rightarrow> int \<Rightarrow> int \<Rightarrow> string" where
  "slice s a b = take (nat b - nat a) (drop (nat a) s)"

definition endsWithDots :: "string \<Rightarrow> bool" where
  "endsWithDots r = (length r \<ge> 2 \<and> r ! (length r - 1) = CHR ''.'' \<and> r ! (length r - 2) = CHR ''.'')"

definition normalizeStep :: "string \<Rightarrow> bool \<Rightarrow> nstate \<Rightarrow> nat \<Rightarrow> nstate" where
  "normalizeStep p allowAboveRoot st i =
     (if i \<ge> length p \<and> ccode st = CHR ''/'' then st
      else
        (let c = (if i < length p then p ! i else CHR ''/'')
         in if c = CHR ''/'' then
              (if lastSlash st = int i - 1 \<or> dots st = 1 then
                 st\<lparr>lastSlash := int i, dots := 0, ccode := c\<rparr>
               else if dots st = 2 then
                 (if (length (res st) < 2 \<or> lastSegmentLength st \<noteq> 2 \<or> \<not> endsWithDots (res st))
                     \<and> length (res st) > 2 then
                    (let lastSlashIndex = lastIndexOf (res st) (CHR ''/'')
                     in if lastSlashIndex = -1 then
                          st\<lparr>res := [], lastSegmentLength := 0, lastSlash := int i, dots := 0, ccode := c\<rparr>
                        else
                          (let r = slice (res st) 0 lastSlashIndex
                           in st\<lparr>res := r,
                                 lastSegmentLength := nat (int (length r) - 1 - lastIndexOf r (CHR ''/'')),
                                 lastSlash := int i, dots := 0, ccode := c\<rparr>))
                  else if (length (res st) < 2 \<or> lastSegmentLength st \<noteq> 2 \<or> \<not> endsWithDots (res st))
                          \<and> length (res st) \<noteq> 0 then
                    st\<lparr>res := [], lastSegmentLength := 0, lastSlash := int i, dots := 0, ccode := c\<rparr>
                  else if allowAboveRoot then
                    st\<lparr>res := (if length (res st) > 0 then res st @ ''/..'' else ''..''),
                       lastSegmentLength := 2, lastSlash := int i, dots := 0, ccode := c\<rparr>
                  else st\<lparr>lastSlash := int i, dots := 0, ccode := c\<rparr>)
               else
                 st\<lparr>res := (if length (res st) > 0
                             then res st @ ''/'' @ slice p (lastSlash st + 1) (int i)
                             else slice p (lastSlash st + 1) (int i)),
                    lastSegmentLength := nat (int i - lastSlash st - 1),
                    lastSlash := int i, dots := 0, ccode := c\<rparr>)
            else if c = CHR ''.'' \<and> dots st \<noteq> -1 then st\<lparr>dots := dots st + 1, ccode := c\<rparr>
            else st\<lparr>dots := -1, ccode := c\<rparr>))"

definition normalizeString :: "string \<Rightarrow> bool \<Rightarrow> string" where
  "normalizeString p allowAboveRoot =
     res (foldl (normalizeStep p allowAboveRoot)
            \<lparr>res = [], lastSegmentLength = 0, lastSlash = -1, dots = 0, ccode = CHR 0x00\<rparr>
            [0 ..< Suc (length p)])"

definition posix_isAbsolute :: "string \<Rightarrow> bool" where
  "posix_isAbsolute p = (length p > 0 \<and> hd p = CHR ''/'')"

definition posix_normalize :: "string \<Rightarrow> string" where
  "posix_normalize p =
     (if p = [] then ''.''
      else
        (let isAbs = (hd p = CHR ''/'');
             trailingSeparator = (last p = CHR ''/'');
             q = normalizeString p (\<not> isAbs)
         in if q = [] then (if isAbs then ''/'' else if trailingSeparator then ''./'' else ''.'')
            else
              (let q1 = (if trailingSeparator then q @ ''/'' else q)
               in if isAbs then ''/'' @ q1 else q1)))"


section \<open>The worker (core/archiveOps.ts)\<close>

text \<open>The decimal text of a number in a template string.\<close>

fun showNat :: "nat \<Rightarrow> string" where
  "showNat n = (if n < 10 then [''0123456789'' ! n] else showNat (n div 10) @ [''0123456789'' ! (n mod 10)])"

declare showNat.simps [simp del]

text \<open>
  The text of a number in a template string (\<open>Number.prototype.toString\<close>): an integral
  double below \<open>2 ^ 53\<close> in magnitude prints as its decimal digits.
\<close>

definition numberToString :: "runtime_env \<Rightarrow> number \<Rightarrow> string" where
  "numberToString r x =
     (case x of
        NaN \<Rightarrow> ''NaN''
      | PosInfinity \<Rightarrow> ''Infinity''
      | NegInfinity \<Rightarrow> ''-Infinity''
      | NegZero \<Rightarrow> ''0''
      | Num n \<Rightarrow>
          if \<bar>n\<bar> < 2 ^ 53 then (if n < 0 then ''-'' @ showNat (nat (- n)) else showNat (nat n))
          else largeNumberText r n)"

definition toLowerCase :: "string \<Rightarrow> string" where
  "toLowerCase s =
     map (\<lambda>c. let n = (of_char c :: nat)
              in if (65 \<le> n \<and> n \<le> 90) \<or> (192 \<le> n \<and> n \<le> 222 \<and> n \<noteq> 215) then char_of (n + 32) else c) s"

text \<open>
  A promise is pending, resolved or rejected; \<open>settle p q\<close> is the promise \<open>p\<close> after a
  later call of \<open>resolve\<close> or \<open>reject\<close> that would give \<open>q\<close>: only the first call counts.
\<close>

datatype 'a promise = Pending | Resolved 'a | Rejected jserror

definition settle :: "'a promise \<Rightarrow> 'a promise \<Rightarrow> 'a promise" where
  "settle p q = (case p of Pending \<Rightarrow> q | _ \<Rightarrow> p)"

text \<open>
  What a spawned process does: the chunks it writes to stdout, the text it writes to
  stderr, an \<open>error\<close> event (with the message of the error) and a \<open>close\<close> event (with
  the exit code, \<open>null\<close> when a signal ended the process). The handlers run in this order.
  \<open>spawn\<close> can also throw before any process exists.
\<close>

record proc_events =
  stdoutChunks :: "string list"
  stderrData :: string
  errorEvent :: "string option"
  closeEvent :: "int option option"

datatype spawn_result = SpawnThrows string | Spawned proc_events

text \<open>
  The world outside the worker: the \<open>path\<close> module, the file system (\<open>fs.access\<close>
  resolves, \<open>fs.mkdir\<close> fails with a message, \<open>statSync\<close> gives the modification time and
  the size or throws), the spawned processes by their argument vector, and \<open>Date.now()\<close>
  when an operation starts and when its process closes.
\<close>

record env = pathmod +
  resolve :: "string \<Rightarrow> string"
  basename :: "string \<Rightarrow> string"
  extname :: "string \<Rightarrow> string"
  dirname :: "string \<Rightarrow> string"
  access :: "string \<Rightarrow> bool"
  mkdir :: "string \<Rightarrow> string option"
  statSync :: "string \<Rightarrow> (int \<times> number) option"
  spawnResult :: "string \<Rightarrow> string list \<Rightarrow> spawn_result"
  startNow :: int
  endNow :: int
  rt :: runtime_env

record handle =
  hargs :: "string list"
  killed :: bool
  exited :: bool

text \<open>
  The fields of an \<open>ArchiveOps\<close> object. \<open>spawned\<close> and \<open>progressCalls\<close> are not fields of
  the class: they record, in order, the argument vectors given to \<open>spawn\<close> and the calls of
  the progress callback.
\<close>

record ArchiveOps =
  executablePath :: string
  status :: ProcessStatus
  lastMessage :: string
  process :: "handle option"
  activeOp :: ArchiveOpType
  startTime :: int
  currentArchivePath :: string
  spawned :: "string list list"
  progressCalls :: "(number \<times> string) list"

definition newArchiveOps :: "string \<Rightarrow> ArchiveOps" where
  "newArchiveOps exe =
     \<lparr>executablePath = exe, status = STATUS_UNDEFINED, lastMessage = [], process = None,
      activeOp = UNDEFINED, startTime = 0, currentArchivePath = [], spawned = [], progressCalls = []\<rparr>"

definition cleanup :: "ArchiveOps \<Rightarrow> ArchiveOps" where
  "cleanup w =
     (let w1 = w\<lparr>activeOp := UNDEFINED\<rparr>
      in case process w1 of
           None \<Rightarrow> w1
         | Some h \<Rightarrow> if \<not> killed h then w1\<lparr>process := None\<rparr> else w1)"

definition createSuccessResult ::
  "env \<Rightarrow> ArchiveOps \<Rightarrow> string \<Rightarrow> FileInfo list \<Rightarrow> string \<Rightarrow> int \<Rightarrow> ArchiveOps \<times> ArchiveOpResult" where
  "createSuccessResult e w msg fs base exitCode0 =
     (let runtime0 = real_of_int (endNow e - startTime w) / 1000;
          w1 = cleanup (w\<lparr>status := SUCCESS, lastMessage := msg\<rparr>)
      in (w1, \<lparr>success = True, runtime = runtime0, optype = activeOp w1, rmessage = msg,
               files = fs, basePath = Some (normalizePath e base), exitCode = Some exitCode0\<rparr>))"

definition createSpawnError :: "ArchiveOps \<Rightarrow> string \<Rightarrow> ArchiveError" where
  "createSpawnError w msg =
     (if includesStr msg ''ENOENT'' then ExecutableNotFoundError (executablePath w)
      else mkArchiveError (''Failed to spawn 7za: '' @ msg) SPAWN_FAILED [(''originalError'', DStr msg)])"

definition verifyArchive :: "env \<Rightarrow> string \<Rightarrow> ArchiveError + unit" where
  "verifyArchive e archivePath =
     (if \<not> access e archivePath then
        Inl (mkArchiveError (''Archive not found: '' @ archivePath) FILE_NOT_FOUND
               [(''archivePath'', DStr archivePath)])
      else
        (let ext = toLowerCase (extname e archivePath)
         in if ext \<noteq> ''.zip'' then Inl (UnsupportedFormatError archivePath (if ext = [] then ''(none)'' else ext))
            else Inr ()))"

definition ensureDirectoryExists :: "env \<Rightarrow> string \<Rightarrow> ArchiveError + unit" where
  "ensureDirectoryExists e directoryPath =
     (if access e directoryPath then Inr ()
      else (case mkdir e directoryPath of
              None \<Rightarrow> Inr ()
            | Some mkdirError \<Rightarrow>
                Inl (mkArchiveError (''Failed to create directory: '' @ directoryPath) DIRECTORY_NOT_FOUND
                       [(''directoryPath'', DStr directoryPath), (''error'', DStr mkdirError)])))"

definition canAccessFile :: "env \<Rightarrow> string \<Rightarrow> bool" where
  "canAccessFile e fullPath = access e fullPath"

definition codeOrZero :: "int option \<Rightarrow> int" where
  "codeOrZero c = (case c of None \<Rightarrow> 0 | Some n \<Rightarrow> n)"

definition markExited :: "ArchiveOps \<Rightarrow> ArchiveOps" where
  "markExited w = w\<lparr>process := map_option (\<lambda>h. h\<lparr>exited := True\<rparr>) (process w)\<rparr>"

text \<open>The handler of the \<open>error\<close> event of a process: it rejects the promise of the operation.\<close>

definition onError :: "ArchiveOps \<Rightarrow> proc_events \<Rightarrow> ArchiveOpResult promise" where
  "onError w ev =
     (case errorEvent ev of
        None \<Rightarrow> Pending
      | Some m \<Rightarrow> Rejected (Archive (createSpawnError w m)))"

text \<open>
  The handlers of the \<open>close\<close> event give the new state of the worker and the call of
  \<open>resolve\<close> or \<open>reject\<close> they make (\<open>Pending\<close> when they make none because they throw).
\<close>

definition listEntries_onClose ::
  "env \<Rightarrow> string \<Rightarrow> string \<Rightarrow> string \<Rightarrow> string \<Rightarrow> int option \<Rightarrow> ArchiveOps \<Rightarrow> ArchiveOps \<times> ArchiveOpResult promise" where
  "listEntries_onClose e archivePath fullArchivePath stdoutBuffer stderrBuffer c w =
     (let exitCode0 = codeOrZero c
      in if exitCode0 = 0 then
           (let fs = parseSltString (rt e) stdoutBuffer
            in if hasEncryptedFiles fs then
                 (cleanup w, Rejected (Archive (EncryptedArchiveError fullArchivePath)))
               else
                 (let r = createSuccessResult e w
                            (''Listed '' @ showNat (length fs) @ '' entries in '' @ [CHR 0x27]
                               @ basename e archivePath @ [CHR 0x27] @ ''.'')
                            fs fullArchivePath exitCode0
                  in (fst r, Resolved (snd r))))
         else (cleanup w, Rejected (Archive (createErrorFromExitCode exitCode0 fullArchivePath stderrBuffer))))"

definition listEntries :: "env \<Rightarrow> string \<Rightarrow> ArchiveOps \<Rightarrow> ArchiveOps \<times> ArchiveOpResult promise" where
  "listEntries e archivePath w0 =
     (let w = w0\<lparr>lastMessage := [], currentArchivePath := archivePath\<rparr>
      in if activeOp w \<noteq> UNDEFINED then (w, Rejected (Archive (OperationInProgressError (opName (activeOp w)))))
         else
           (let fullArchivePath = resolve e archivePath
            in case verifyArchive e fullArchivePath of
                 Inl err \<Rightarrow> (w, Rejected (Archive err))
               | Inr _ \<Rightarrow>
                   (let w1 = w\<lparr>activeOp := LIST, status := RUNNING,
                               lastMessage := ''Listing archive contents...'', startTime := startNow e\<rparr>;
                        args = [''l'', ''-slt'', fullArchivePath]
                    in case spawnResult e (executablePath w1) args of
                         SpawnThrows m \<Rightarrow> (cleanup w1, Rejected (PlainError m))
                       | Spawned ev \<Rightarrow>
                           (let w2 = w1\<lparr>process := Some \<lparr>hargs = args, killed = False, exited = False\<rparr>,
                                       spawned := spawned w1 @ [args]\<rparr>;
                                stdoutBuffer = (if statusVal (status w2) \<le> 0 then [] else concat (stdoutChunks ev))
                            in case closeEvent ev of
                                 None \<Rightarrow> (w2, onError w2 ev)
                               | Some c \<Rightarrow>
                                   (let r = listEntries_onClose e archivePath fullArchivePath stdoutBuffer
                                              (stderrData ev) c (markExited w2)
                                    in (fst r, settle (onError w2 ev) (snd r)))))))"

definition listEntriesInternal_onClose ::
  "env \<Rightarrow> string \<Rightarrow> string \<Rightarrow> string \<Rightarrow> int option \<Rightarrow> ArchiveOpResult promise" where
  "listEntriesInternal_onClose e fullArchivePath stdoutBuffer stderrBuffer c =
     (let exitCode0 = codeOrZero c
      in if exitCode0 = 0 then
           (let fs = parseSltString (rt e) stdoutBuffer
            in if hasEncryptedFiles fs then Rejected (Archive (EncryptedArchiveError fullArchivePath))
               else Resolved
                      \<lparr>success = True, runtime = 0, optype = LIST,
                       rmessage = ''Listed '' @ showNat (length fs) @ '' entries.'',
                       files = fs, basePath = Some (dirname e fullArchivePath),
                       exitCode = Some exitCode0\<rparr>)
         else Rejected (Archive (createErrorFromExitCode exitCode0 fullArchivePath stderrBuffer)))"

definition listEntriesInternal :: "env \<Rightarrow> ArchiveOps \<Rightarrow> string \<Rightarrow> ArchiveOps \<times> ArchiveOpResult promise" where
  "listEntriesInternal e w fullArchivePath =
     (let args = [''l'', ''-slt'', fullArchivePath]
      in case spawnResult e (executablePath w) args of
           SpawnThrows m \<Rightarrow> (w, Rejected (PlainError m))
         | Spawned ev \<Rightarrow>
             (let w1 = w\<lparr>spawned := spawned w @ [args]\<rparr>
              in case closeEvent ev of
                   None \<Rightarrow> (w1, onError w1 ev)
                 | Some c \<Rightarrow>
                     (w1, settle (onError w1 ev)
                            (listEntriesInternal_onClose e fullArchivePath (concat (stdoutChunks ev)) (stderrData ev) c))))"

text \<open>The first match of \<open>/(\d+)%/\<close> in a chunk: the digits captured.\<close>

fun matchPercent :: "string \<Rightarrow> string option" where
  "matchPercent [] = None"
| "matchPercent (c # cs) =
     (if isDigit c \<and> (case dropWhile isDigit cs of [] \<Rightarrow> False | d # _ \<Rightarrow> d = CHR ''%'')
      then Some (c # takeWhile isDigit cs)
      else matchPercent cs)"

text \<open>
  The handler of stdout data of \<open>decompress\<close> and \<open>compress\<close>; \<open>prefix\<close> is the text of the
  message before the percentage and \<open>cb\<close> tells whether a progress callback was given.
\<close>

definition progressStep ::
  "env \<Rightarrow> string \<Rightarrow> bool \<Rightarrow> ArchiveOps \<times> number \<Rightarrow> string \<Rightarrow> ArchiveOps \<times> number" where
  "progressStep e prefix cb st chunk =
     (let w = fst st; progress = snd st
      in if statusVal (status w) \<le> 0 then st
         else
           (let progress1 = (case matchPercent chunk of None \<Rightarrow> progress | Some ds \<Rightarrow> parseInt10 ds);
                newMessage = prefix @ numberToString (rt e) progress1 @ ''%''
            in if newMessage \<noteq> lastMessage w then
                 (w\<lparr>lastMessage := newMessage,
                    progressCalls := (if cb then progressCalls w @ [(progress1, newMessage)] else progressCalls w)\<rparr>,
                  progress1)
               else (w, progress1)))"

definition callProgress :: "bool \<Rightarrow> number \<Rightarrow> string \<Rightarrow> ArchiveOps \<Rightarrow> ArchiveOps" where
  "callProgress cb n msg w = (if cb then w\<lparr>progressCalls := progressCalls w @ [(n, msg)]\<rparr> else w)"

definition quoted :: "string \<Rightarrow> string" where
  "quoted s = [CHR 0x27] @ s @ [CHR 0x27]"

definition decompress_onClose ::
  "env \<Rightarrow> string \<Rightarrow> string \<Rightarrow> string \<Rightarrow> string \<Rightarrow> FileInfo list \<Rightarrow> bool \<Rightarrow> string \<Rightarrow> int option
     \<Rightarrow> ArchiveOps \<Rightarrow> ArchiveOps \<times> ArchiveOpResult promise" where
  "decompress_onClose e srcFilename targetPath fullArchivePath fullTargetPath listed cb stderrBuffer c w =
     (let exitCode0 = codeOrZero c
      in if exitCode0 = 0 then
           (let w1 = callProgress cb (Num 100) (''Extracted '' @ quoted srcFilename @ ''.'') w;
                r = createSuccessResult e w1
                      (''Extracted '' @ quoted srcFilename @ '' to '' @ quoted targetPath @ ''.'')
                      listed fullTargetPath exitCode0
            in (fst r, Resolved (snd r)))
         else (cleanup w, Rejected (Archive (createErrorFromExitCode exitCode0 fullArchivePath stderrBuffer))))"

text \<open>The extraction: what \<open>decompress\<close> does once the listing is validated.\<close>

definition decompress_extract ::
  "env \<Rightarrow> string \<Rightarrow> string \<Rightarrow> string \<Rightarrow> string \<Rightarrow> FileInfo list \<Rightarrow> string list option \<Rightarrow> bool
     \<Rightarrow> ArchiveOps \<Rightarrow> ArchiveOps \<times> ArchiveOpResult promise" where
  "decompress_extract e srcFilename targetPath fullArchivePath fullTargetPath listed fileList cb w =
     (let w1 = w\<lparr>activeOp := DECOMPRESS, status := RUNNING,
                 lastMessage := ''Extracting '' @ quoted srcFilename @ '' to '' @ quoted targetPath,
                 startTime := startNow e\<rparr>;
          args = [''x'', ''-aoa'', ''-bsp1'', ''-bso0'', fullArchivePath, ''-o'' @ fullTargetPath]
                 @ (case fileList of None \<Rightarrow> [] | Some fl \<Rightarrow> fl)
      in case spawnResult e (executablePath w1) args of
           SpawnThrows m \<Rightarrow> (cleanup w1, Rejected (PlainError m))
         | Spawned ev \<Rightarrow>
             (let w2 = w1\<lparr>process := Some \<lparr>hargs = args, killed = False, exited = False\<rparr>,
                         spawned := spawned w1 @ [args]\<rparr>;
                  w3 = fst (foldl (progressStep e (''Extracting '' @ quoted srcFilename @ ''...'') cb)
                              (w2, Num 0) (stdoutChunks ev))
              in case closeEvent ev of
                   None \<Rightarrow> (w3, onError w3 ev)
                 | Some c \<Rightarrow>
                     (let r = decompress_onClose e srcFilename targetPath fullArchivePath fullTargetPath
                                listed cb (stderrData ev) c (markExited w3)
                      in (fst r, settle (onError w3 ev) (snd r)))))"

definition decompress ::
  "env \<Rightarrow> string \<Rightarrow> string \<Rightarrow> string list option \<Rightarrow> bool \<Rightarrow> ArchiveOps \<Rightarrow> ArchiveOps \<times> ArchiveOpResult promise" where
  "decompress e archivePath targetPath fileList cb w0 =
     (let w = w0\<lparr>lastMessage := [], currentArchivePath := archivePath\<rparr>
      in if activeOp w \<noteq> UNDEFINED then (w, Rejected (Archive (OperationInProgressError (opName (activeOp w)))))
         else
           (let fullArchivePath = resolve e archivePath;
                fullTargetPath = resolve e targetPath;
                srcFilename = basename e fullArchivePath
            in case verifyArchive e fullArchivePath of
                 Inl err \<Rightarrow> (w, Rejected (Archive err))
               | Inr _ \<Rightarrow>
                 (case ensureDirectoryExists e fullTargetPath of
                    Inl err \<Rightarrow> (w, Rejected (Archive err))
                  | Inr _ \<Rightarrow>
                    (let l = listEntriesInternal e w fullArchivePath; wl = fst l
                     in case snd l of
                          Pending \<Rightarrow> (wl, Pending)
                        | Rejected err \<Rightarrow> (wl, Rejected err)
                        | Resolved listResult \<Rightarrow>
                            if length (files listResult) = 0 then
                              (wl, Rejected (Archive (mkArchiveError
                                     (''Cannot decompress empty archive: '' @ srcFilename) EMPTY_ARCHIVE
                                     [(''archivePath'', DStr fullArchivePath)])))
                            else
                              (case validateAllEntries e (files listResult) fullArchivePath of
                                 Inl err \<Rightarrow> (wl, Rejected (Archive err))
                               | Inr _ \<Rightarrow>
                                   decompress_extract e srcFilename targetPath fullArchivePath fullTargetPath
                                     (files listResult) fileList cb wl)))))"

definition extractSingle ::
  "env \<Rightarrow> string \<Rightarrow> string \<Rightarrow> string \<Rightarrow> ArchiveOps \<Rightarrow> ArchiveOps \<times> ArchiveOpResult promise" where
  "extractSingle e archivePath entryPath destPath w = decompress e archivePath destPath (Some [entryPath]) False w"

text \<open>The text \<open>sourceDesc\<close> of the messages; \<open>path.basename(undefined)\<close> throws for no source file.\<close>

definition sourceDesc :: "env \<Rightarrow> string list \<Rightarrow> string option" where
  "sourceDesc e sourceFiles =
     (if length sourceFiles > 1 then Some (showNat (length sourceFiles) @ '' files'')
      else (case sourceFiles of [] \<Rightarrow> None | f # _ \<Rightarrow> Some (quoted (basename e f))))"

definition missingFiles :: "env \<Rightarrow> string list \<Rightarrow> string list" where
  "missingFiles e resolvedSourceFiles = map (basename e) (filter (\<lambda>f. \<not> canAccessFile e f) resolvedSourceFiles)"

fun joinComma :: "string list \<Rightarrow> string" where
  "joinComma [] = []"
| "joinComma [x] = x"
| "joinComma (x # y # ys) = x @ '', '' @ joinComma (y # ys)"

definition sourcesNotFound :: "string list \<Rightarrow> ArchiveError" where
  "sourcesNotFound ms =
     mkArchiveError (''Source files not found: '' @ joinComma ms) FILE_NOT_FOUND [(''missingFiles'', DStrs ms)]"

definition compress_onClose ::
  "env \<Rightarrow> string list \<Rightarrow> string \<Rightarrow> string \<Rightarrow> bool \<Rightarrow> string \<Rightarrow> int option
     \<Rightarrow> ArchiveOps \<Rightarrow> ArchiveOps \<times> ArchiveOpResult promise" where
  "compress_onClose e sourceFiles archiveFilename fullArchivePath cb stderrBuffer c w =
     (let exitCode0 = codeOrZero c
      in if exitCode0 = 0 then
           (case statSync e fullArchivePath of
              None \<Rightarrow> (w, Pending)
            | Some st \<Rightarrow>
                (case sourceDesc e sourceFiles of
                   None \<Rightarrow> (w, Pending)
                 | Some desc \<Rightarrow>
                     (let archiveInfo = \<lparr>date = fst st, size = snd st, compressedSize = None,
                                         filename = archiveFilename, encrypted = None, crc = None\<rparr>;
                          msg = ''Compressed '' @ desc @ '' to '' @ quoted archiveFilename @ ''.'';
                          w1 = callProgress cb (Num 100) msg w;
                          r = createSuccessResult e w1 msg [archiveInfo] (dirname e fullArchivePath) exitCode0
                      in (fst r, Resolved (snd r)))))
         else (cleanup w, Rejected (Archive (createErrorFromExitCode exitCode0 fullArchivePath stderrBuffer))))"

definition compress ::
  "env \<Rightarrow> string list \<Rightarrow> string \<Rightarrow> CompressionLevel \<Rightarrow> bool \<Rightarrow> ArchiveOps \<Rightarrow> ArchiveOps \<times> ArchiveOpResult promise" where
  "compress e sourceFiles archivePath level cb w0 =
     (let w = w0\<lparr>lastMessage := []\<rparr>
      in if activeOp w \<noteq> UNDEFINED then (w, Rejected (Archive (OperationInProgressError (opName (activeOp w)))))
         else
           (let fullArchivePath = resolve e archivePath;
                resolvedSourceFiles = map (resolve e) sourceFiles;
                archiveFilename = basename e fullArchivePath;
                ext = toLowerCase (extname e fullArchivePath)
            in if ext \<noteq> ''.zip'' then
                 (w, Rejected (Archive (UnsupportedFormatError fullArchivePath (if ext = [] then ''(none)'' else ext))))
               else if length (missingFiles e resolvedSourceFiles) > 0 then
                 (w, Rejected (Archive (sourcesNotFound (missingFiles e resolvedSourceFiles))))
               else
                 (case ensureDirectoryExists e (dirname e fullArchivePath) of
                    Inl err \<Rightarrow> (w, Rejected (Archive err))
                  | Inr _ \<Rightarrow>
                    (let wo = (if canAccessFile e fullArchivePath
                               then callProgress cb (Num 0) (''Overwriting existing archive: '' @ archiveFilename) w else w);
                         w1 = wo\<lparr>activeOp := COMPRESS, status := RUNNING,
                                 lastMessage := ''Compressing to '' @ quoted archiveFilename, startTime := startNow e\<rparr>;
                         args = [''a'', ''-tzip'', ''-mx'' @ showNat (levelVal level), ''-bsp1'', ''-bso0'', fullArchivePath]
                                @ resolvedSourceFiles
                     in case spawnResult e (executablePath w1) args of
                          SpawnThrows m \<Rightarrow> (cleanup w1, Rejected (PlainError m))
                        | Spawned ev \<Rightarrow>
                            (let w2 = w1\<lparr>process := Some \<lparr>hargs = args, killed = False, exited = False\<rparr>,
                                        spawned := spawned w1 @ [args]\<rparr>;
                                 w3 = fst (foldl (progressStep e (''Compressing '' @ quoted archiveFilename @ ''...'') cb)
                                             (w2, Num 0) (stdoutChunks ev))
                             in case closeEvent ev of
                                  None \<Rightarrow> (w3, onError w3 ev)
                                | Some c \<Rightarrow>
                                    (let r = compress_onClose e sourceFiles archiveFilename fullArchivePath cb
                                               (stderrData ev) c (markExited w3)
                                     in (fst r, settle (onError w3 ev) (snd r))))))))"

definition update_onClose ::
  "env \<Rightarrow> string list \<Rightarrow> string \<Rightarrow> string \<Rightarrow> string \<Rightarrow> int option
     \<Rightarrow> ArchiveOps \<Rightarrow> ArchiveOps \<times> ArchiveOpResult promise" where
  "update_onClose e sourceFiles archiveFilename fullArchivePath stderrBuffer c w =
     (let exitCode0 = codeOrZero c
      in if exitCode0 = 0 then
           (case sourceDesc e sourceFiles of
              None \<Rightarrow> (w, Pending)
            | Some desc \<Rightarrow>
                (let r = createSuccessResult e w
                           (''Updated '' @ quoted archiveFilename @ '' with '' @ desc @ ''.'')
                           [] (dirname e fullArchivePath) exitCode0
                 in (fst r, Resolved (snd r))))
         else (cleanup w, Rejected (Archive (createErrorFromExitCode exitCode0 fullArchivePath stderrBuffer))))"

definition update :: "env \<Rightarrow> string \<Rightarrow> string list \<Rightarrow> ArchiveOps \<Rightarrow> ArchiveOps \<times> ArchiveOpResult promise" where
  "update e archivePath sourceFiles w0 =
     (let w = w0\<lparr>lastMessage := []\<rparr>
      in if activeOp w \<noteq> UNDEFINED then (w, Rejected (Archive (OperationInProgressError (opName (activeOp w)))))
         else
           (let fullArchivePath = resolve e archivePath;
                resolvedSourceFiles = map (resolve e) sourceFiles;
                archiveFilename = basename e fullArchivePath
            in case verifyArchive e fullArchivePath of
                 Inl err \<Rightarrow> (w, Rejected (Archive err))
               | Inr _ \<Rightarrow>
                   if length (missingFiles e resolvedSourceFiles) > 0 then
                     (w, Rejected (Archive (sourcesNotFound (missingFiles e resolvedSourceFiles))))
                   else
                     (let w1 = w\<lparr>activeOp := UPDATE, status := RUNNING,
                                 lastMessage := ''Updating '' @ quoted archiveFilename, startTime := startNow e\<rparr>;
                          args = [''u'', ''-tzip'', ''-bsp1'', ''-bso0'', fullArchivePath] @ resolvedSourceFiles
                      in case spawnResult e (executablePath w1) args of
                           SpawnThrows m \<Rightarrow> (cleanup w1, Rejected (PlainError m))
                         | Spawned ev \<Rightarrow>
                             (let w2 = w1\<lparr>process := Some \<lparr>hargs = args, killed = False, exited = False\<rparr>,
                                         spawned := spawned w1 @ [args]\<rparr>
                              in case closeEvent ev of
                                   None \<Rightarrow> (w2, onError w2 ev)
                                 | Some c \<Rightarrow>
                                     (let r = update_onClose e sourceFiles archiveFilename fullArchivePath
                                                (stderrData ev) c (markExited w2)
                                      in (fst r, settle (onError w2 ev) (snd r)))))))"

definition cancel :: "ArchiveOps \<Rightarrow> ArchiveOps" where
  "cancel w =
     cleanup (case process w of
                None \<Rightarrow> w
              | Some h \<Rightarrow>
                  if \<not> killed h
                  then w\<lparr>process := Some (h\<lparr>killed := \<not> exited h\<rparr>), status := ERROR, lastMessage := ''Operation cancelled''\<rparr>
                  else w)"

definition getStatus :: "ArchiveOps \<Rightarrow> ProcessStatus \<times> string" where
  "getStatus w = (status w, lastMessage w)"

section \<open>The scheduler (core/archiveService.ts)\<close>

text \<open>The thunk of a job: the operation that a fresh worker runs once the job starts.\<close>

datatype operation =
    OpDecompress string string "string list option" bool
  | OpCompress "string list" string CompressionLevel bool
  | OpList string
  | OpExtractSingle string string string
  | OpUpdate string "string list"

definition runOperation :: "env \<Rightarrow> string \<Rightarrow> operation \<Rightarrow> ArchiveOps \<times> ArchiveOpResult promise" where
  "runOperation e exe op =
     (case op of
        OpDecompress a d fl cb \<Rightarrow> decompress e a d fl cb (newArchiveOps exe)
      | OpCompress srcs a lvl cb \<Rightarrow> compress e srcs a lvl cb (newArchiveOps exe)
      | OpList a \<Rightarrow> listEntries e a (newArchiveOps exe)
      | OpExtractSingle a en d \<Rightarrow> extractSingle e a en d (newArchiveOps exe)
      | OpUpdate a srcs \<Rightarrow> update e a srcs (newArchiveOps exe))"

text \<open>
  A job of the queue. Its \<open>resolve\<close> and \<open>reject\<close> settle the promise of the job, kept in
  \<open>promises\<close> of the service below.
\<close>

record QueuedJob =
  jid :: nat
  jstatus :: ProcessStatus
  joperation :: operation
  worker :: "ArchiveOps option"

text \<open>
  The fields of the service are \<open>config\<close> (\<open>svcExecutablePath\<close>, \<open>maxConcurrent\<close>),
  \<open>queue\<close> (a \<open>Map\<close>, which iterates in insertion order) and \<open>activeJobs\<close>. The rest is the
  world the service acts on: the promise of every job, the jobs whose operation was
  started and has not settled yet (\<open>inflight\<close>), the jobs whose worker received
  \<open>cancel()\<close>, and the job identifiers handed out (\<open>randomUUID\<close> gives a fresh one,
  here the next number).
\<close>

record ArchiveService =
  svcExecutablePath :: string
  maxConcurrent :: int
  queue :: "(nat \<times> QueuedJob) list"
  activeJobs :: int
  promises :: "nat \<Rightarrow> ArchiveOpResult promise"
  inflight :: "nat list"
  workerCancels :: "nat list"
  nextId :: nat

definition newArchiveService :: "string \<Rightarrow> int \<Rightarrow> ArchiveService" where
  "newArchiveService exe n =
     \<lparr>svcExecutablePath = exe, maxConcurrent = n, queue = [], activeJobs = 0,
      promises = (\<lambda>_. Pending), inflight = [], workerCancels = [], nextId = 0\<rparr>"

definition mapSet :: "nat \<Rightarrow> QueuedJob \<Rightarrow> (nat \<times> QueuedJob) list \<Rightarrow> (nat \<times> QueuedJob) list" where
  "mapSet k v q =
     (if k \<in> set (map fst q) then map (\<lambda>kv. if fst kv = k then (k, v) else kv) q else q @ [(k, v)])"

definition mapDelete :: "nat \<Rightarrow> (nat \<times> QueuedJob) list \<Rightarrow> (nat \<times> QueuedJob) list" where
  "mapDelete k q = filter (\<lambda>kv. fst kv \<noteq> k) q"

text \<open>
  The loop of \<open>processQueue\<close> over the queue, with the ceiling \<open>n\<close> and the running count
  \<open>a\<close>: it gives the new count, the queue with the jobs it started marked, and the jobs started.
\<close>

fun scanQueue :: "int \<Rightarrow> int \<Rightarrow> (nat \<times> QueuedJob) list \<Rightarrow> int \<times> (nat \<times> QueuedJob) list \<times> nat list" where
  "scanQueue n a [] = (a, [], [])"
| "scanQueue n a ((k, j) # rest) =
     (if jstatus j \<noteq> QUEUED then
        (case scanQueue n a rest of (a1, rest1, st) \<Rightarrow> (a1, (k, j) # rest1, st))
      else if a + 1 \<ge> n then (a + 1, (k, j\<lparr>jstatus := RUNNING\<rparr>) # rest, [k])
      else (case scanQueue n (a + 1) rest of (a1, rest1, st) \<Rightarrow> (a1, (k, j\<lparr>jstatus := RUNNING\<rparr>) # rest1, k # st)))"

definition processQueue :: "ArchiveService \<Rightarrow> ArchiveService" where
  "processQueue s =
     (if activeJobs s \<ge> maxConcurrent s then s
      else (case scanQueue (maxConcurrent s) (activeJobs s) (queue s) of
              (a1, q1, st) \<Rightarrow> s\<lparr>queue := q1, activeJobs := a1, inflight := inflight s @ st\<rparr>))"

text \<open>\<open>submitJob\<close> returns the handle: the identifier and the status of the job on return.\<close>

definition submitJob :: "operation \<Rightarrow> ArchiveService \<Rightarrow> (nat \<times> ProcessStatus) \<times> ArchiveService" where
  "submitJob op s =
     (let jobId = nextId s;
          job = \<lparr>jid = jobId, jstatus = QUEUED, joperation = op, worker = None\<rparr>;
          s1 = processQueue (s\<lparr>queue := mapSet jobId job (queue s), nextId := Suc jobId\<rparr>)
      in ((jobId, (case map_of (queue s1) jobId of None \<Rightarrow> QUEUED | Some j \<Rightarrow> jstatus j)), s1))"

definition rejectJob :: "nat \<Rightarrow> string \<Rightarrow> ArchiveService \<Rightarrow> ArchiveService" where
  "rejectJob k msg s = s\<lparr>promises := (promises s)(k := settle (promises s k) (Rejected (PlainError msg)))\<rparr>"

definition cancelJob :: "nat \<Rightarrow> ArchiveService \<Rightarrow> bool \<times> ArchiveService" where
  "cancelJob jobId s =
     (case map_of (queue s) jobId of
        None \<Rightarrow> (False, s)
      | Some job \<Rightarrow>
          (let s1 = (if worker job \<noteq> None \<and> jstatus job = RUNNING
                     then s\<lparr>workerCancels := workerCancels s @ [jobId], activeJobs := activeJobs s - 1\<rparr>
                     else s);
               s2 = rejectJob jobId ''Job cancelled'' s1;
               s3 = s2\<lparr>queue := mapDelete jobId (queue s2)\<rparr>
           in (True, processQueue s3)))"

definition cancelAll :: "ArchiveService \<Rightarrow> ArchiveService" where
  "cancelAll s =
     (let s1 = foldl (\<lambda>t kv. rejectJob (fst kv) ''All jobs cancelled''
                               (if worker (snd kv) \<noteq> None \<and> jstatus (snd kv) = RUNNING
                                then t\<lparr>workerCancels := workerCancels t @ [fst kv]\<rparr> else t))
                s (queue s)
      in s1\<lparr>queue := [], activeJobs := 0\<rparr>)"

definition cleanupJob :: "nat \<Rightarrow> ArchiveService \<Rightarrow> ArchiveService" where
  "cleanupJob jobId s = processQueue (s\<lparr>queue := mapDelete jobId (queue s), activeJobs := activeJobs s - 1\<rparr>)"

text \<open>
  The callbacks on the promise of a started operation, run when the operation settles
  with the outcome \<open>r\<close>: the job (found in the queue unless a cancellation removed it) gets
  its final status, its promise is settled and \<open>cleanupJob\<close> runs.
\<close>

definition settleJob :: "nat \<Rightarrow> jserror + ArchiveOpResult \<Rightarrow> ArchiveService \<Rightarrow> ArchiveService" where
  "settleJob jobId r s =
     (let st = (case r of Inl _ \<Rightarrow> ERROR | Inr _ \<Rightarrow> SUCCESS);
          s1 = s\<lparr>queue := map (\<lambda>kv. if fst kv = jobId then (fst kv, (snd kv)\<lparr>jstatus := st\<rparr>) else kv) (queue s),
                 promises := (promises s)(jobId := settle (promises s jobId)
                                (case r of Inl err \<Rightarrow> Rejected err | Inr result0 \<Rightarrow> Resolved result0)),
                 inflight := removeAll jobId (inflight s)\<rparr>
      in cleanupJob jobId s1)"

definition serviceStatus :: "ArchiveService \<Rightarrow> int \<times> nat \<times> nat" where
  "serviceStatus s = (activeJobs s, length (filter (\<lambda>kv. jstatus (snd kv) = QUEUED) (queue s)), length (queue s))"

definition getJob :: "nat \<Rightarrow> ArchiveService \<Rightarrow> (nat \<times> ProcessStatus) option" where
  "getJob jobId s = (case map_of (queue s) jobId of None \<Rightarrow> None | Some job \<Rightarrow> Some (jid job, jstatus job))"

text \<open>
  The states of a service with ceiling \<open>n\<close>: any sequence of submissions, cancellations
  and settlements of started operations.
\<close>

inductive reachable :: "int \<Rightarrow> ArchiveService \<Rightarrow> bool" for n :: int where
  init: "reachable n (newArchiveService exe n)"
| submit: "reachable n s \<Longrightarrow> reachable n (snd (submitJob op s))"
| cancel_job: "reachable n s \<Longrightarrow> reachable n (snd (cancelJob k s))"
| cancel_all: "reachable n s \<Longrightarrow> reachable n (cancelAll s)"
| settled: "reachable n s \<Longrightarrow> k \<in> set (inflight s) \<Longrightarrow> reachable n (settleJob k r s)"

definition runningJobs :: "ArchiveService \<Rightarrow> nat list" where
  "runningJobs s = map fst (filter (\<lambda>kv. jstatus (snd kv) = RUNNING) (queue s))"

definition queuedJobs :: "ArchiveService \<Rightarrow> nat list" where
  "queuedJobs s = map fst (filter (\<lambda>kv. jstatus (snd kv) = QUEUED) (queue s))"

section \<open>An example world\<close>

text \<open>
  A world in which every path is accessible and every archive is \<open>/work/a.zip\<close>: the
  listing process prints \<open>listing\<close> and exits with code 0, every other process reports
  its progress and exits with code 0.
\<close>

definition exampleRuntime :: runtime_env where
  "exampleRuntime = \<lparr>currentTime = 0, parseDate = (\<lambda>_. None), largeNumberText = (\<lambda>_. ''1e+21'')\<rparr>"

definition exampleEnv :: "string \<Rightarrow> env" where
  "exampleEnv listing =
     \<lparr>normalize = posix_normalize, isAbsolute = posix_isAbsolute, sep = ''/'',
      resolve = (\<lambda>p. p), basename = (\<lambda>p. ''a.zip''), extname = (\<lambda>p. ''.zip''), dirname = (\<lambda>p. ''/work''),
      access = (\<lambda>p. True), mkdir = (\<lambda>p. None), statSync = (\<lambda>p. Some (0, Num 100)),
      spawnResult = (\<lambda>exe args.
         if take 1 args = [''l'']
         then Spawned \<lparr>stdoutChunks = [listing], stderrData = [], errorEvent = None, closeEvent = Some (Some 0)\<rparr>
         else Spawned \<lparr>stdoutChunks = ['' 50%'', ''100%''], stderrData = [], errorEvent = None, closeEvent = Some (Some 0)\<rparr>),
      startNow = 1000, endNow = 2500, rt = exampleRuntime\<rparr>"

section \<open>Notions used to state the properties\<close>

subsection \<open>The blocks of a listing\<close>

text \<open>
  The blocks of a list of lines: a line that is blank after trimming ends a block, and the
  lines after the last blank line are the last block.
\<close>

fun blocksOf :: "string list \<Rightarrow> string list \<Rightarrow> string list list" where
  "blocksOf cur [] = [cur]"
| "blocksOf cur (l # ls) = (if trim l = [] then cur # blocksOf [] ls else blocksOf (cur @ [l]) ls)"

text \<open>
  The value of a line \<open>key = value\<close> for the given key (no value for another line), and
  the value of the last such line of a block.
\<close>

definition lineKeyValue :: "string \<Rightarrow> string \<Rightarrow> string list" where
  "lineKeyValue key line =
     (case indexOf (trim line) '' = '' of
        None \<Rightarrow> []
      | Some i \<Rightarrow> if take i (trim line) = key then [drop (i + 3) (trim line)] else [])"

definition lastValue :: "string \<Rightarrow> string list \<Rightarrow> string option" where
  "lastValue key b =
     (case concat (map (lineKeyValue key) b) of [] \<Rightarrow> None | v # vs \<Rightarrow> Some (last (v # vs)))"

text \<open>The entry that a block describes, key by key.\<close>

definition blockEntry :: "string list \<Rightarrow> SltFileEntry" where
  "blockEntry b =
     \<lparr>path = lastValue ''Path'' b,
      esize = map_option parseInt10 (lastValue ''Size'' b),
      packedSize = map_option parseInt10 (lastValue ''Packed Size'' b),
      modified = lastValue ''Modified'' b,
      eencrypted = lastValue ''Encrypted'' b,
      ecrc = lastValue ''CRC'' b,
      attributes = lastValue ''Attributes'' b\<rparr>"

text \<open>
  A block gives a record when it has a path and its attributes do not mark a directory;
  the size of the record is 0 without a \<open>Size\<close> line and what \<open>parseInt\<close> makes of the value
  of the last \<open>Size\<close> line otherwise.
\<close>

definition blockHasRecord :: "string list \<Rightarrow> bool" where
  "blockHasRecord b =
     (case lastValue ''Path'' b of
        None \<Rightarrow> False
      | Some p \<Rightarrow> p \<noteq> [] \<and> (case lastValue ''Attributes'' b of None \<Rightarrow> True | Some a \<Rightarrow> \<not> includesStr a ''D''))"

definition blockSize :: "string list \<Rightarrow> number" where
  "blockSize b = (case lastValue ''Size'' b of None \<Rightarrow> Num 0 | Some v \<Rightarrow> parseInt10 v)"

subsection \<open>The segments of a path\<close>










text \<open>
  The state of \<open>normalizeString\<close> before index \<open>i\<close>, in terms of the segments of the first
  \<open>i\<close> characters: the result is the joined stack of the closed segments, and the counters
  describe the segment that is still open. A stack is well formed when no segment of it is
  empty or holds a \<open>/\<close>.
\<close>

definition wfStack :: "string list \<Rightarrow> bool" where
  "wfStack st = (\<forall>s \<in> set st. s \<noteq> [] \<and> CHR ''/'' \<notin> set s)"


subsection \<open>The scheduler\<close>

text \<open>
  Admission order: \<open>admits a b\<close> says that the later entry \<open>b\<close> of the queue is not
  Running while the earlier entry \<open>a\<close> is still Queued.
\<close>

definition admits :: "nat \<times> QueuedJob \<Rightarrow> nat \<times> QueuedJob \<Rightarrow> bool" where
  "admits a b = (jstatus (snd b) = RUNNING \<longrightarrow> jstatus (snd a) \<noteq> QUEUED)"

definition fifoInv :: "ArchiveService \<Rightarrow> bool" where
  "fifoInv s = (sorted_wrt (<) (map fst (queue s)) \<and> (\<forall>k \<in> set (map fst (queue s)). k < nextId s)
                \<and> sorted_wrt admits (queue s))"


section \<open>The error classifier\<close>

lemma firstMatch_Some:
  "firstMatch ps s = Some p \<Longrightarrow> p \<in> set ps \<and> test_i (pattern p) s"
  by (induction ps) (auto split: if_splits)

lemma firstMatch_None:
  "firstMatch ps s = None \<longleftrightarrow> (\<forall>p \<in> set ps. \<not> test_i (pattern p) s)"
  by (induction ps) auto

text \<open>The pattern that wins is the first one of the table that matches.\<close>

lemma firstMatch_first:
  "firstMatch ps s = Some p \<Longrightarrow> \<exists>pre post. ps = pre @ p # post \<and> (\<forall>q \<in> set pre. \<not> test_i (pattern q) s)"
proof (induction ps)
  case Nil
  then show ?case by simp
next
  case (Cons a ps)
  show ?case
  proof (cases "test_i (pattern a) s")
    case True
    with Cons.prems have "a = p" by simp
    then have "a # ps = [] @ p # ps \<and> (\<forall>q \<in> set []. \<not> test_i (pattern q) s)" by simp
    then show ?thesis by blast
  next
    case False
    with Cons.prems have "firstMatch ps s = Some p" by simp
    from Cons.IH[OF this] obtain pre post
      where "ps = pre @ p # post" and "\<forall>q \<in> set pre. \<not> test_i (pattern q) s" by blast
    with False have "a # ps = (a # pre) @ p # post \<and> (\<forall>q \<in> set (a # pre). \<not> test_i (pattern q) s)"
      by simp
    then show ?thesis by blast
  qed
qed

lemma includesStr_set: "includesStr s sub \<Longrightarrow> set sub \<subseteq> set s"
proof (induction s)
  case Nil
  then show ?case by simp
next
  case (Cons c cs)
  from Cons.prems have "startsWith (c # cs) sub \<or> includesStr cs sub" by simp
  then show ?case
  proof
    assume "startsWith (c # cs) sub"
    then have "sub = take (length sub) (c # cs)" by (simp add: startsWith_def)
    then have "set sub \<subseteq> set (c # cs)" by (metis set_take_subset)
    then show ?thesis .
  next
    assume "includesStr cs sub"
    with Cons.IH show ?thesis by auto
  qed
qed

lemma trim_padded: "trim (CHR ''x'' # replicate 200 (CHR '' '')) = ''x''"
proof -
  have "dropWhile isWhiteSpace (replicate 200 (CHR '' '') @ ''x'') = ''x''"
    by (subst dropWhile_append2) (auto simp: isWhiteSpace_def)
  then show ?thesis by (simp add: trim_def isWhiteSpace_def)
qed

lemma nomatch_padded: "firstMatch STDERR_PATTERNS (CHR ''x'' # replicate 200 (CHR '' '')) = None"
proof -
  have s: "set (map canonicalize (CHR ''x'' # replicate 200 (CHR '' ''))) = {CHR ''X'', CHR '' ''}"
    by (simp add: canonicalize_def)
  have "\<not> test_i (pattern p) (CHR ''x'' # replicate 200 (CHR '' ''))" if "p \<in> set STDERR_PATTERNS" for p
  proof
    assume "test_i (pattern p) (CHR ''x'' # replicate 200 (CHR '' ''))"
    then have "set (map canonicalize (pattern p)) \<subseteq> {CHR ''X'', CHR '' ''}"
      unfolding test_i_def using includesStr_set s by blast
    with that show False
      by (auto simp: STDERR_PATTERNS_def pat_def canonicalize_def)
  qed
  then show ?thesis by (simp add: firstMatch_None)
qed

lemma nomatch_empty: "firstMatch STDERR_PATTERNS [] = None"
  by (simp add: STDERR_PATTERNS_def pat_def test_i_def)

lemma match_crc: "firstMatch STDERR_PATTERNS ''ERROR: crc failed'' = Some (hd STDERR_PATTERNS)"
  by (simp add: STDERR_PATTERNS_def pat_def test_i_def canonicalize_def startsWith_def)

lemma match_system_file:
  "firstMatch STDERR_PATTERNS ''The system cannot find the file specified.''
     = Some (pat ''Cannot find the file'' FILE_NOT_FOUND ''File not found'')"
  by code_simp

lemma test_system_file:
  "test_i ''The system cannot find the file'' ''The system cannot find the file specified.''"
  by code_simp

text \<open>
  Claim C8, as the code has it. When a pattern of the table matches stderr, the error
  carries the code and the message of the first pattern of the table that matches,
  whatever the exit code is. When none matches, the code comes from the exit-code table
  (1 warning, 7 command-line error, 8 out of memory, 255 user abort, anything else fatal)
  and the message is the default message of that code, followed by \<open>": "\<close> and the
  trimmed stderr exactly when the trimmed stderr is not empty and has fewer than 200
  characters.
\<close>

theorem createErrorFromExitCode_classifies:
  "((\<exists>p \<in> set STDERR_PATTERNS. test_i (pattern p) stderr) \<longrightarrow>
      (\<exists>pre p post. STDERR_PATTERNS = pre @ p # post
          \<and> (\<forall>q \<in> set pre. \<not> test_i (pattern q) stderr) \<and> test_i (pattern p) stderr
          \<and> code (createErrorFromExitCode exitCode0 archivePath stderr) = pcode p
          \<and> message (createErrorFromExitCode exitCode0 archivePath stderr) = pmessage p))
   \<and> ((\<forall>p \<in> set STDERR_PATTERNS. \<not> test_i (pattern p) stderr) \<longrightarrow>
        code (createErrorFromExitCode exitCode0 archivePath stderr) =
          (if exitCode0 = 1 then WARNING else if exitCode0 = 7 then COMMAND_LINE_ERROR
           else if exitCode0 = 8 then OUT_OF_MEMORY else if exitCode0 = 255 then USER_ABORTED
           else FATAL_ERROR)
        \<and> message (createErrorFromExitCode exitCode0 archivePath stderr) =
          DEFAULT_MESSAGES (code (createErrorFromExitCode exitCode0 archivePath stderr))
          @ (if trim stderr \<noteq> [] \<and> length (trim stderr) < 200 then '': '' @ trim stderr else []))"
proof (intro conjI impI)
  assume "\<exists>p \<in> set STDERR_PATTERNS. test_i (pattern p) stderr"
  then have "firstMatch STDERR_PATTERNS stderr \<noteq> None"
    by (simp add: firstMatch_None)
  then obtain p where p: "firstMatch STDERR_PATTERNS stderr = Some p" by blast
  from firstMatch_first[OF p] obtain pre post where
    sp: "STDERR_PATTERNS = pre @ p # post" and fst: "\<forall>q \<in> set pre. \<not> test_i (pattern q) stderr"
    by blast
  have cm: "code (createErrorFromExitCode exitCode0 archivePath stderr) = pcode p
          \<and> message (createErrorFromExitCode exitCode0 archivePath stderr) = pmessage p"
    using p by (simp add: createErrorFromExitCode_def parseStderrForError_def mkArchiveError_def)
  from firstMatch_Some[OF p] have "test_i (pattern p) stderr" by simp
  with sp fst cm
  show "\<exists>pre p post. STDERR_PATTERNS = pre @ p # post
          \<and> (\<forall>q \<in> set pre. \<not> test_i (pattern q) stderr) \<and> test_i (pattern p) stderr
          \<and> code (createErrorFromExitCode exitCode0 archivePath stderr) = pcode p
          \<and> message (createErrorFromExitCode exitCode0 archivePath stderr) = pmessage p"
    by blast
next
  assume "\<forall>p \<in> set STDERR_PATTERNS. \<not> test_i (pattern p) stderr"
  then have n: "firstMatch STDERR_PATTERNS stderr = None"
    by (simp add: firstMatch_None)
  show "code (createErrorFromExitCode exitCode0 archivePath stderr) =
          (if exitCode0 = 1 then WARNING else if exitCode0 = 7 then COMMAND_LINE_ERROR
           else if exitCode0 = 8 then OUT_OF_MEMORY else if exitCode0 = 255 then USER_ABORTED
           else FATAL_ERROR)"
    using n by (simp add: createErrorFromExitCode_def parseStderrForError_def mkArchiveError_def Let_def)
  show "message (createErrorFromExitCode exitCode0 archivePath stderr) =
          DEFAULT_MESSAGES (code (createErrorFromExitCode exitCode0 archivePath stderr))
          @ (if trim stderr \<noteq> [] \<and> length (trim stderr) < 200 then '': '' @ trim stderr else [])"
    using n by (simp add: createErrorFromExitCode_def parseStderrForError_def mkArchiveError_def Let_def)
qed

text \<open>
  The theorem at a stderr that matches the first pattern (exit code 2) and at an
  empty stderr (exit code 7).
\<close>

theorem createErrorFromExitCode_classifies_witness:
  "(\<exists>p \<in> set STDERR_PATTERNS. test_i (pattern p) ''ERROR: crc failed'')
   \<and> code (createErrorFromExitCode 2 ''a.zip'' ''ERROR: crc failed'') = CORRUPT_ARCHIVE
   \<and> message (createErrorFromExitCode 2 ''a.zip'' ''ERROR: crc failed'') = ''CRC check failed - archive is corrupted''
   \<and> firstMatch STDERR_PATTERNS [] = None
   \<and> code (createErrorFromExitCode 7 ''a.zip'' []) = COMMAND_LINE_ERROR
   \<and> message (createErrorFromExitCode 7 ''a.zip'' []) = ''Invalid command line arguments''"
proof -
  have m: "\<exists>p \<in> set STDERR_PATTERNS. test_i (pattern p) ''ERROR: crc failed''"
    using firstMatch_Some[OF match_crc] by blast
  have n: "\<forall>p \<in> set STDERR_PATTERNS. \<not> test_i (pattern p) []"
    using nomatch_empty by (simp add: firstMatch_None)
  have t: "trim [] = []" by (simp add: trim_def)
  from createErrorFromExitCode_classifies[of "''ERROR: crc failed''" 2 "''a.zip''"] m
  obtain pre p post where sp: "STDERR_PATTERNS = pre @ p # post"
      and f: "\<forall>q \<in> set pre. \<not> test_i (pattern q) ''ERROR: crc failed''"
      and cm: "code (createErrorFromExitCode 2 ''a.zip'' ''ERROR: crc failed'') = pcode p"
              "message (createErrorFromExitCode 2 ''a.zip'' ''ERROR: crc failed'') = pmessage p"
    by blast
  have h: "test_i (pattern (hd STDERR_PATTERNS)) ''ERROR: crc failed''"
    using firstMatch_Some[OF match_crc] by simp
  have "pre = []"
  proof (cases pre)
    case Nil
    then show ?thesis .
  next
    case (Cons x xs)
    with sp have "hd STDERR_PATTERNS = x" by (metis append_Cons list.sel(1))
    with h f Cons show ?thesis by simp
  qed
  with sp have "p = hd STDERR_PATTERNS" by (metis append_Nil list.sel(1))
  with cm have a: "code (createErrorFromExitCode 2 ''a.zip'' ''ERROR: crc failed'') = CORRUPT_ARCHIVE
     \<and> message (createErrorFromExitCode 2 ''a.zip'' ''ERROR: crc failed'') = ''CRC check failed - archive is corrupted''"
    by (simp add: STDERR_PATTERNS_def pat_def)
  from createErrorFromExitCode_classifies[of "[]" 7 "''a.zip''"] n
  have b: "code (createErrorFromExitCode 7 ''a.zip'' []) = COMMAND_LINE_ERROR
      \<and> message (createErrorFromExitCode 7 ''a.zip'' []) = ''Invalid command line arguments''"
    by (simp add: t)
  from m a nomatch_empty b show ?thesis by blast
qed

text \<open>
  Claim C8 as stated fails twice. A stderr of 201 characters, \<open>x\<close> followed by 200 spaces,
  matches no pattern and is not shorter than 200 characters, and the message is extended
  all the same, by the trimmed text. And the pattern \<open>The system cannot find the file\<close>
  matches the stderr \<open>The system cannot find the file specified.\<close>, but the error carries
  the message of the earlier pattern \<open>Cannot find the file\<close>, which matches too.
\<close>

theorem createErrorFromExitCode_long_stderr_counterexample:
  "parseStderrForError (CHR ''x'' # replicate 200 (CHR '' '')) = None \<and>
   message (createErrorFromExitCode 2 ''a.zip'' (CHR ''x'' # replicate 200 (CHR '' '')))
     = ''Fatal error occurred during operation: x'' \<and>
   \<not> length (CHR ''x'' # replicate 200 (CHR '' '')) < 200 \<and>
   pat ''The system cannot find the file'' FILE_NOT_FOUND ''System cannot find the file'' \<in> set STDERR_PATTERNS \<and>
   test_i ''The system cannot find the file'' ''The system cannot find the file specified.'' \<and>
   message (createErrorFromExitCode 2 ''a.zip'' ''The system cannot find the file specified.'') = ''File not found''"
proof -
  have a: "parseStderrForError (CHR ''x'' # replicate 200 (CHR '' '')) = None \<and>
   message (createErrorFromExitCode 2 ''a.zip'' (CHR ''x'' # replicate 200 (CHR '' '')))
     = ''Fatal error occurred during operation: x'' \<and>
   \<not> length (CHR ''x'' # replicate 200 (CHR '' '')) < 200"
    using nomatch_padded trim_padded
    by (simp add: createErrorFromExitCode_def parseStderrForError_def mkArchiveError_def Let_def)
  have b: "pat ''The system cannot find the file'' FILE_NOT_FOUND ''System cannot find the file'' \<in> set STDERR_PATTERNS"
    by (simp add: STDERR_PATTERNS_def)
  have c: "message (createErrorFromExitCode 2 ''a.zip'' ''The system cannot find the file specified.'') = ''File not found''"
    using match_system_file
    by (simp add: createErrorFromExitCode_def parseStderrForError_def mkArchiveError_def pat_def)
  from a b test_system_file c show ?thesis by blast
qed

text \<open>
  Claim C10. When stderr matches no pattern, \<open>createErrorFromExitCode\<close> with exit code 0
  returns an error with the code \<open>FATAL_ERROR\<close>, although \<open>exitCodeToErrorCode 0\<close> is null.
\<close>

theorem createErrorFromExitCode_zero:
  "parseStderrForError stderr = None \<Longrightarrow>
   code (createErrorFromExitCode 0 archivePath stderr) = FATAL_ERROR \<and> exitCodeToErrorCode 0 = None"
  by (simp add: createErrorFromExitCode_def mkArchiveError_def Let_def)

theorem createErrorFromExitCode_zero_witness:
  "parseStderrForError [] = None \<and>
   code (createErrorFromExitCode 0 ''a.zip'' []) = FATAL_ERROR \<and> exitCodeToErrorCode 0 = None"
proof -
  have h: "parseStderrForError [] = None"
    using nomatch_empty by (simp add: parseStderrForError_def)
  from createErrorFromExitCode_zero[OF h, of "''a.zip''"] h show ?thesis by simp
qed

section \<open>The listing parser\<close>

lemma blocksOf_nonempty: "blocksOf cur ls \<noteq> []"
  by (induction ls arbitrary: cur) auto

lemma lineKeyValue_cases:
  "lineKeyValue key line = [] \<or> (\<exists>v. lineKeyValue key line = [v])"
  by (simp add: lineKeyValue_def split: option.splits)

lemma lastValue_Nil: "lastValue key [] = None"
  by (simp add: lastValue_def)

lemma last_case:
  "ys \<noteq> [] \<Longrightarrow> (case ys of [] \<Rightarrow> None | a # as \<Rightarrow> Some (last (a # as))) = Some (last ys)"
  by (cases ys) simp_all

lemma lastValue_snoc:
  "lastValue key (b @ [l]) = (case lineKeyValue key l of [] \<Rightarrow> lastValue key b | v # vs \<Rightarrow> Some v)"
proof -
  from lineKeyValue_cases[of key l] show ?thesis
  proof
    assume "lineKeyValue key l = []"
    then show ?thesis by (simp add: lastValue_def)
  next
    assume "\<exists>v. lineKeyValue key l = [v]"
    then obtain v where "lineKeyValue key l = [v]" by blast
    then show ?thesis
      using last_case[of "concat (map (lineKeyValue key) b) @ [v]"] by (simp add: lastValue_def)
  qed
qed

text \<open>What a line that is not blank does to the current entry.\<close>

lemma parseLine_blank:
  "trim l = [] \<Longrightarrow> parseLine rte (fs, e) l =
     (case convertToFileInfo rte e of None \<Rightarrow> (fs, emptyEntry) | Some f \<Rightarrow> (fs @ [f], emptyEntry))"
  by (simp add: parseLine_def Let_def)

lemma blockEntry_Nil: "blockEntry [] = emptyEntry"
  by (simp add: blockEntry_def lastValue_Nil emptyEntry_def)

lemma parseLine_line:
  assumes "trim l \<noteq> []"
  shows "parseLine rte (fs, blockEntry b) l = (fs, blockEntry (b @ [l]))"
proof (cases "indexOf (trim l) '' = ''")
  case None
  then have "lineKeyValue key l = []" for key by (simp add: lineKeyValue_def)
  then have "blockEntry (b @ [l]) = blockEntry b" by (simp add: blockEntry_def lastValue_snoc)
  with assms None show ?thesis by (simp add: parseLine_def Let_def)
next
  case (Some i)
  let ?k = "take i (trim l)" and ?v = "drop (i + 3) (trim l)"
  from Some have kv: "lineKeyValue key l = (if ?k = key then [?v] else [])" for key
    by (simp add: lineKeyValue_def)
  have "blockEntry (b @ [l]) = setField ?k ?v (blockEntry b)"
    by (simp add: blockEntry_def lastValue_snoc kv setField_def)
  with assms Some show ?thesis by (simp add: parseLine_def Let_def)
qed

lemma foldl_parseLine_blocks:
  "foldl (parseLine rte) (fs, blockEntry cur) ls =
     (fs @ List.map_filter (\<lambda>b. convertToFileInfo rte (blockEntry b)) (butlast (blocksOf cur ls)),
      blockEntry (last (blocksOf cur ls)))"
proof (induction ls arbitrary: fs cur)
  case Nil
  then show ?case by (simp add: List.map_filter_def)
next
  case (Cons l ls)
  show ?case
  proof (cases "trim l = []")
    case True
    have b: "butlast (cur # blocksOf [] ls) = cur # butlast (blocksOf [] ls)"
      and la: "last (cur # blocksOf [] ls) = last (blocksOf [] ls)"
      using blocksOf_nonempty[of "[]" ls] by simp_all
    show ?thesis
    proof (cases "convertToFileInfo rte (blockEntry cur)")
      case None
      with True have "parseLine rte (fs, blockEntry cur) l = (fs, blockEntry [])"
        by (simp add: parseLine_blank blockEntry_Nil)
      with True None Cons.IH[of fs "[]"] b la show ?thesis
        by (simp add: List.map_filter_def)
    next
      case (Some f)
      with True have "parseLine rte (fs, blockEntry cur) l = (fs @ [f], blockEntry [])"
        by (simp add: parseLine_blank blockEntry_Nil)
      with True Some Cons.IH[of "fs @ [f]" "[]"] b la show ?thesis
        by (simp add: List.map_filter_def)
    qed
  next
    case False
    from parseLine_line[OF False] have "parseLine rte (fs, blockEntry cur) l = (fs, blockEntry (cur @ [l]))" .
    with False Cons.IH[of fs "cur @ [l]"] show ?thesis by simp
  qed
qed

lemma parseSltString_blocks:
  "parseSltString rte output =
     List.map_filter (\<lambda>b. convertToFileInfo rte (blockEntry b)) (blocksOf [] (splitLines [] output))"
proof -
  let ?bs = "blocksOf [] (splitLines [] output)"
  let ?f = "\<lambda>b. convertToFileInfo rte (blockEntry b)"
  have ne: "?bs \<noteq> []" by (rule blocksOf_nonempty)
  have fo: "foldl (parseLine rte) ([], emptyEntry) (splitLines [] output)
        = (List.map_filter ?f (butlast ?bs), blockEntry (last ?bs))"
    using foldl_parseLine_blocks[of rte "[]" "[]" "splitLines [] output"] by (simp add: blockEntry_Nil)
  have "List.map_filter ?f ?bs = List.map_filter ?f (butlast ?bs @ [last ?bs])"
    using ne by simp
  also have "\<dots> = List.map_filter ?f (butlast ?bs)
        @ (case ?f (last ?bs) of None \<Rightarrow> [] | Some x \<Rightarrow> [x])"
    by (simp add: List.map_filter_def split: option.splits)
  finally have m: "List.map_filter ?f ?bs = List.map_filter ?f (butlast ?bs)
        @ (case ?f (last ?bs) of None \<Rightarrow> [] | Some x \<Rightarrow> [x])" .
  show ?thesis
    unfolding parseSltString_def fo m by (simp add: Let_def split: option.splits)
qed

lemma convert_blockEntry_None:
  "convertToFileInfo rte (blockEntry b) = None \<longleftrightarrow> \<not> blockHasRecord b"
  by (auto simp: convertToFileInfo_def blockEntry_def blockHasRecord_def Let_def split: option.splits)

lemma convert_blockEntry_size:
  "convertToFileInfo rte (blockEntry b) = Some f \<Longrightarrow> size f = blockSize b"
  by (auto simp: convertToFileInfo_def blockEntry_def blockSize_def Let_def split: option.splits if_splits)

lemma map_size_blocks:
  "map size (List.map_filter (\<lambda>b. convertToFileInfo rte (blockEntry b)) bs)
     = map blockSize (filter blockHasRecord bs)"
proof (induction bs)
  case Nil
  then show ?case by (simp add: List.map_filter_def)
next
  case (Cons b bs)
  show ?case
  proof (cases "convertToFileInfo rte (blockEntry b)")
    case None
    then have "\<not> blockHasRecord b" by (simp add: convert_blockEntry_None)
    with None Cons.IH show ?thesis by (simp add: List.map_filter_def)
  next
    case (Some f)
    then have "blockHasRecord b" using convert_blockEntry_None[of rte b] by simp
    with Some convert_blockEntry_size[OF Some] Cons.IH show ?thesis by (simp add: List.map_filter_def)
  qed
qed

lemma isDigit_not_space: "isDigit c \<Longrightarrow> \<not> isWhiteSpace c \<and> c \<noteq> CHR ''-'' \<and> c \<noteq> CHR ''+''"
  by (auto simp: isDigit_def isWhiteSpace_def)

lemma parseInt10_digit:
  assumes "v \<noteq> []" and "isDigit (hd v)"
  shows "parseInt10 v = (case roundToDouble (digitsVal (takeWhile isDigit v)) of
                           None \<Rightarrow> PosInfinity | Some m \<Rightarrow> Num (int m))"
proof -
  from assms obtain c cs where v: "v = c # cs" and c: "isDigit c" by (cases v) auto
  from isDigit_not_space[OF c] have ns: "\<not> isWhiteSpace c" and nm: "c \<noteq> CHR ''-''" and np: "c \<noteq> CHR ''+''"
    by simp_all
  show ?thesis
    using v c ns nm np by (simp add: parseInt10_def trimStart_def Let_def split: option.splits)
qed

lemma bitLength_bounds: "0 < n \<Longrightarrow> 2 ^ (bitLength n - 1) \<le> n \<and> n < 2 ^ bitLength n"
proof (induction n rule: bitLength.induct)
  case (1 n)
  show ?case
  proof (cases "n div 2 = 0")
    case True
    with "1.prems" have "n = 1" by auto
    then show ?thesis by (simp add: bitLength.simps)
  next
    case False
    then have pos: "0 < n div 2" by simp
    from "1.IH" "1.prems" pos have ih: "2 ^ (bitLength (n div 2) - 1) \<le> n div 2 \<and> n div 2 < 2 ^ bitLength (n div 2)"
      by simp
    have b: "bitLength n = Suc (bitLength (n div 2))" using "1.prems" by (subst bitLength.simps) simp
    have bp: "0 < bitLength (n div 2)" using pos by (subst bitLength.simps) simp
    then have e: "2 ^ (bitLength n - 1) = 2 * (2::nat) ^ (bitLength (n div 2) - 1)"
      using b by (cases "bitLength (n div 2)") simp_all
    from ih have "2 * 2 ^ (bitLength (n div 2) - 1) \<le> n" by linarith
    moreover from ih have "n < 2 * 2 ^ bitLength (n div 2)" by linarith
    ultimately show ?thesis using b e by simp
  qed
qed

lemma round_overflow:
  assumes "2 ^ 1024 \<le> n"
  shows "roundToDouble n = None"
proof -
  define A :: nat where "A = 2 ^ 1024"
  define B :: nat where "B = 2 ^ 53"
  define e where "e = bitLength n - 53"
  define q where "q = n div 2 ^ e"
  have An: "A \<le> n" using assms by (simp only: A_def)
  have Apos: "0 < A" unfolding A_def by (rule zero_less_power) simp
  have BA: "B \<le> A" unfolding A_def B_def by (rule power_increasing) simp_all
  from An Apos have pos: "0 < n" by linarith
  note b = bitLength_bounds[OF pos]
  from b An have "A < 2 ^ bitLength n" by linarith
  then have "(2::nat) ^ 1024 < 2 ^ bitLength n" by (simp only: A_def)
  then have bl: "1024 < bitLength n"
    using power_strict_increasing_iff[of "2::nat" 1024 "bitLength n"] by simp
  have s: "bitLength n - 1 = 52 + e" using bl by (simp add: e_def)
  have "(2::nat) ^ 52 * 2 ^ e \<le> n" using b unfolding s by (simp only: power_add)
  then have ql: "2 ^ 52 \<le> q" unfolding q_def by (simp only: less_eq_div_iff_mult_less_eq zero_less_power zero_less_numeral)
  have "1024 \<le> 52 + e" using bl s by linarith
  then have "A \<le> 2 ^ (52 + e)" unfolding A_def by (rule power_increasing) simp
  also have "\<dots> = 2 ^ 52 * 2 ^ e" by (simp only: power_add)
  also have "\<dots> \<le> q * 2 ^ e" using ql by (rule mult_le_mono1)
  finally have v: "A \<le> q * 2 ^ e" .
  have "q * 2 ^ e \<le> (q + 1) * 2 ^ e" by (rule mult_le_mono1) simp
  with v have v1: "A \<le> (q + 1) * 2 ^ e" by linarith
  have big: "\<not> n < B" using An BA by linarith
  have "roundToDouble n =
     (if n < B then Some n
      else
        (let q1 = (if 2 ^ (e - 1) < n mod 2 ^ e \<or> (n mod 2 ^ e = 2 ^ (e - 1) \<and> odd q) then q + 1 else q)
         in if A \<le> q1 * 2 ^ e then None else Some (q1 * 2 ^ e)))"
    unfolding roundToDouble_def Let_def A_def B_def e_def q_def ..
  also have "\<dots> = None"
    using big v v1 by (simp only: Let_def if_False if_True split: if_splits, blast)
  finally show ?thesis .
qed


lemma bitLength_eq:
  assumes "2 ^ k \<le> n" and "n < 2 ^ Suc k"
  shows "bitLength n = Suc k"
proof -
  have "(0::nat) < 2 ^ k" by (rule zero_less_power) simp
  with assms(1) have pos: "0 < n" by linarith
  note b = bitLength_bounds[OF pos]
  from b assms(2) have "(2::nat) ^ (bitLength n - 1) < 2 ^ Suc k" by linarith
  then have u: "bitLength n - 1 < Suc k"
    using power_strict_increasing_iff[of "2::nat" "bitLength n - 1" "Suc k"] by simp
  from b assms(1) have "(2::nat) ^ k < 2 ^ bitLength n" by linarith
  then have l: "k < bitLength n"
    using power_strict_increasing_iff[of "2::nat" k "bitLength n"] by simp
  from u l show ?thesis by linarith
qed

lemma round_53: "roundToDouble (2 ^ 53 + 1) = Some (2 ^ 53)"
proof -
  have "bitLength (2 ^ 53 + 1) = Suc 53" by (rule bitLength_eq) simp_all
  then show ?thesis by (simp add: roundToDouble_def Let_def)
qed

lemma round_small: "n < 2 ^ 53 \<Longrightarrow> roundToDouble n = Some n"
  by (simp add: roundToDouble_def)

lemma splitLines_no_newline: "CHR 0x0A \<notin> set s \<Longrightarrow> splitLines cur s = [cur @ s]"
  by (induction cur s rule: splitLines.induct) auto

lemma splitLines_newline:
  "CHR 0x0A \<notin> set a \<Longrightarrow> CHR 0x0D \<notin> set a \<Longrightarrow> splitLines cur (a @ CHR 0x0A # b) = (cur @ a) # splitLines [] b"
proof (induction a arbitrary: cur)
  case Nil
  show ?case by (cases b) simp_all
next
  case (Cons c a)
  from Cons.prems have c: "c \<noteq> CHR 0x0A" "c \<noteq> CHR 0x0D" by auto
  from Cons.prems have "splitLines (cur @ [c]) (a @ CHR 0x0A # b) = (cur @ [c] @ a) # splitLines [] b"
    using Cons.IH[of "cur @ [c]"] by simp
  moreover have "splitLines cur ((c # a) @ CHR 0x0A # b) = splitLines (cur @ [c]) (a @ CHR 0x0A # b)"
    using c by (cases a) simp_all
  ultimately show ?case by simp
qed

lemma trim_id:
  "s \<noteq> [] \<Longrightarrow> \<not> isWhiteSpace (hd s) \<Longrightarrow> \<not> isWhiteSpace (last s) \<Longrightarrow> trim s = s"
proof -
  assume s: "s \<noteq> []" and h: "\<not> isWhiteSpace (hd s)" and l: "\<not> isWhiteSpace (last s)"
  from s h have a: "dropWhile isWhiteSpace s = s" by (cases s) simp_all
  from s l have "dropWhile isWhiteSpace (rev s) = rev s" by (cases "rev s") (simp_all add: hd_rev)
  with a show ?thesis by (simp add: trim_def)
qed

lemma isDigit_plain: "isDigit c \<Longrightarrow> c \<noteq> CHR 0x0A \<and> c \<noteq> CHR 0x0D \<and> \<not> isWhiteSpace c"
  by (auto simp: isDigit_def isWhiteSpace_def)

lemma digits_plain:
  assumes "\<forall>c \<in> set v. isDigit c"
  shows "CHR 0x0A \<notin> set v" and "CHR 0x0D \<notin> set v" and "v \<noteq> [] \<Longrightarrow> \<not> isWhiteSpace (last v)"
proof -
  show "CHR 0x0A \<notin> set v" using assms isDigit_plain by blast
  show "CHR 0x0D \<notin> set v" using assms isDigit_plain by blast
  show "v \<noteq> [] \<Longrightarrow> \<not> isWhiteSpace (last v)" using assms isDigit_plain last_in_set by blast
qed

lemma parse_size_line:
  assumes ne: "v \<noteq> []" and dg: "\<forall>c \<in> set v. isDigit c" and sg: "sg = [] \<or> sg = ''-''"
  shows "parseSltString rte (''Path = a.txt'' @ [CHR 0x0A] @ ''Size = '' @ sg @ v)
     = [\<lparr>date = currentTime rte, size = parseInt10 (sg @ v), compressedSize = None, filename = ''a.txt'',
         encrypted = Some False, crc = None\<rparr>]"
proof -
  have nl: "CHR 0x0A \<notin> set (sg @ v)" "CHR 0x0D \<notin> set (sg @ v)"
    using digits_plain(1,2)[OF dg] sg by auto
  have lw: "\<not> isWhiteSpace (last (sg @ v))" using digits_plain(3)[OF dg ne] ne by simp
  have sp: "splitLines [] (''Path = a.txt'' @ [CHR 0x0A] @ ''Size = '' @ sg @ v) = [''Path = a.txt'', ''Size = '' @ sg @ v]"
    using splitLines_newline[of "''Path = a.txt''" "[]" "''Size = '' @ sg @ v"]
      splitLines_no_newline[of "''Size = '' @ sg @ v" "[]"] nl
    by simp
  have t1: "trim ''Path = a.txt'' = ''Path = a.txt''" by (simp add: trim_def isWhiteSpace_def)
  have t2: "trim (''Size = '' @ sg @ v) = ''Size = '' @ sg @ v"
    by (rule trim_id) (use ne lw in \<open>simp_all add: isWhiteSpace_def\<close>)
  show ?thesis
    unfolding parseSltString_def sp
    by (simp add: parseLine_def Let_def t1 t2[simplified] startsWith_def setField_def convertToFileInfo_def emptyEntry_def)
qed


lemma digitsVal_append: "digitsVal (ds @ es) = foldl (\<lambda>a c. 10 * a + digitVal c) (digitsVal ds) es"
  by (simp add: digitsVal_def)

lemma foldl_zeros: "foldl (\<lambda>a c. 10 * a + digitVal c) a (replicate k (CHR ''0'')) = a * 10 ^ k"
  by (induction k arbitrary: a) (simp_all add: digitVal_def)

lemma digitsVal_zeros: "digitsVal (ds @ replicate k (CHR ''0'')) = digitsVal ds * 10 ^ k"
  by (simp add: digitsVal_append foldl_zeros)

lemma takeWhile_digits: "\<forall>c \<in> set v. isDigit c \<Longrightarrow> takeWhile isDigit v = v"
  by (induction v) simp_all

lemma pow10_309: "(2::nat) ^ 1024 \<le> 10 ^ 309"
  by simp

lemma parse_huge: "parseInt10 (CHR ''1'' # replicate 309 (CHR ''0'')) = PosInfinity"
proof -
  let ?v = "CHR ''1'' # replicate 309 (CHR ''0'')"
  have d: "\<forall>c \<in> set ?v. isDigit c" by (simp add: isDigit_def)
  have "digitsVal ([CHR ''1''] @ replicate 309 (CHR ''0'')) = 10 ^ 309"
    unfolding digitsVal_zeros by (simp add: digitsVal_def digitVal_def)
  hence "roundToDouble (digitsVal ?v) = None" using round_overflow[OF pow10_309] by simp
  moreover have "isDigit (hd ?v)" by (simp add: isDigit_def)
  ultimately show ?thesis using parseInt10_digit[of ?v] takeWhile_digits[OF d] by simp
qed

lemmas parse_defs = parseSltString_def parseLine_def Let_def trim_def isWhiteSpace_def startsWith_def
      setField_def convertToFileInfo_def emptyEntry_def exampleRuntime_def parseInt10_def trimStart_def
      isDigit_def digitsVal_def digitVal_def round_small

lemma parse_12: "parseInt10 ''12'' = Num 12"
  by (simp add: parse_defs)

lemma parse_neg: "parseInt10 ''-5'' = Num (- 5)"
  by (simp add: parse_defs)

lemma parse_53: "parseInt10 ''9007199254740993'' = Num 9007199254740992"
proof -
  have "digitsVal ''9007199254740993'' = 2 ^ 53 + 1" by (simp add: digitsVal_def digitVal_def)
  thus ?thesis using parseInt10_digit[of "''9007199254740993''"] round_53 by (simp add: isDigit_def)
qed

lemma ex_listing: "parseSltString exampleRuntime (''Path = a.txt'' @ [CHR 0x0A] @ ''Size = 12'')
   = [\<lparr>date = 0, size = Num 12, compressedSize = None, filename = ''a.txt'', encrypted = Some False, crc = None\<rparr>]"
  by (simp add: parse_defs)

lemma ex_neg: "parseSltString exampleRuntime (''Path = a.txt'' @ [CHR 0x0A] @ ''Size = -5'')
   = [\<lparr>date = 0, size = Num (- 5), compressedSize = None, filename = ''a.txt'', encrypted = Some False, crc = None\<rparr>]"
  by (simp add: parse_defs)

lemma ex_nan: "parseSltString exampleRuntime (''Path = a.txt'' @ [CHR 0x0A] @ ''Size = big'')
   = [\<lparr>date = 0, size = NaN, compressedSize = None, filename = ''a.txt'', encrypted = Some False, crc = None\<rparr>]"
  by (simp add: parse_defs)

lemma ex_huge: "parseSltString exampleRuntime (''Path = a.txt'' @ [CHR 0x0A] @ ''Size = '' @ CHR ''1'' # replicate 309 (CHR ''0''))
   = [\<lparr>date = 0, size = PosInfinity, compressedSize = None, filename = ''a.txt'', encrypted = Some False, crc = None\<rparr>]"
  using parse_size_line[of "CHR ''1'' # replicate 309 (CHR ''0'')" "[]" exampleRuntime] parse_huge
  by (simp add: isDigit_def exampleRuntime_def)

lemma ex_blocks: "blocksOf [] (splitLines [] (''Path = a.txt'' @ [CHR 0x0A] @ ''Size = 12'' @ [CHR 0x0A, CHR 0x0A] @ ''Path = b.txt''))
   = [[''Path = a.txt'', ''Size = 12''], [''Path = b.txt'']]"
  by (simp add: blocksOf.simps trim_def isWhiteSpace_def)

lemma ex_lastValue: "lastValue ''Size'' [''Path = a.txt'', ''Size = 12''] = Some ''12''
  \<and> lastValue ''Size'' [''Path = b.txt''] = None"
  by (simp add: lastValue_def lineKeyValue_def trim_def isWhiteSpace_def startsWith_def)

text \<open>
  Claim C9, as the code has it. The records of a listing are the records of its blocks, the
  runs of lines between blank lines, in their order: a block gives a record when it has a
  path that is not empty and its attributes do not mark a directory. The size of the record
  is 0 when its block carries no \<open>Size\<close> line, and otherwise what \<open>parseInt\<close> makes of the
  value of the last \<open>Size\<close> line of the block, which is a non-negative integer or
  \<open>Infinity\<close> when that value begins with a decimal digit.
\<close>

theorem parseSltString_sizes:
  "parseSltString rte output
     = List.map_filter (\<lambda>b. convertToFileInfo rte (blockEntry b)) (blocksOf [] (splitLines [] output))
   \<and> map size (parseSltString rte output)
     = map blockSize (filter blockHasRecord (blocksOf [] (splitLines [] output)))
   \<and> (lastValue ''Size'' b = None \<longrightarrow> blockSize b = Num 0)
   \<and> (lastValue ''Size'' b = Some v \<longrightarrow> blockSize b = parseInt10 v)
   \<and> (v \<noteq> [] \<and> isDigit (hd v) \<longrightarrow> (\<exists>n \<ge> 0. parseInt10 v = Num n) \<or> parseInt10 v = PosInfinity)"
proof (intro conjI impI)
  show "parseSltString rte output
     = List.map_filter (\<lambda>b. convertToFileInfo rte (blockEntry b)) (blocksOf [] (splitLines [] output))"
    by (rule parseSltString_blocks)
  show "map size (parseSltString rte output)
     = map blockSize (filter blockHasRecord (blocksOf [] (splitLines [] output)))"
    unfolding parseSltString_blocks by (rule map_size_blocks)
next
  assume "lastValue ''Size'' b = None"
  then show "blockSize b = Num 0" by (simp add: blockSize_def)
next
  assume "lastValue ''Size'' b = Some v"
  then show "blockSize b = parseInt10 v" by (simp add: blockSize_def)
next
  assume "v \<noteq> [] \<and> isDigit (hd v)"
  then have "parseInt10 v = (case roundToDouble (digitsVal (takeWhile isDigit v)) of
                           None \<Rightarrow> PosInfinity | Some m \<Rightarrow> Num (int m))"
    by (simp add: parseInt10_digit)
  then show "(\<exists>n \<ge> 0. parseInt10 v = Num n) \<or> parseInt10 v = PosInfinity"
    by (cases "roundToDouble (digitsVal (takeWhile isDigit v))") auto
qed

text \<open>
  The theorem at a listing of two blocks, the second without a \<open>Size\<close> line, and at the
  value \<open>9007199254740993\<close>, which is \<open>2 ^ 53 + 1\<close> and which \<open>parseInt\<close> rounds.
\<close>

theorem parseSltString_sizes_witness:
  "map size (parseSltString exampleRuntime
       (''Path = a.txt'' @ [CHR 0x0A] @ ''Size = 12'' @ [CHR 0x0A, CHR 0x0A] @ ''Path = b.txt''))
     = [Num 12, Num 0]
   \<and> blocksOf [] (splitLines []
       (''Path = a.txt'' @ [CHR 0x0A] @ ''Size = 12'' @ [CHR 0x0A, CHR 0x0A] @ ''Path = b.txt''))
     = [[''Path = a.txt'', ''Size = 12''], [''Path = b.txt'']]
   \<and> lastValue ''Size'' [''Path = b.txt''] = None
   \<and> blockSize [''Path = b.txt''] = Num 0
   \<and> lastValue ''Size'' [''Path = a.txt'', ''Size = 12''] = Some ''12''
   \<and> blockSize [''Path = a.txt'', ''Size = 12''] = Num 12
   \<and> isDigit (hd ''9007199254740993'')
   \<and> parseInt10 ''9007199254740993'' = Num 9007199254740992"
proof -
  let ?out = "''Path = a.txt'' @ [CHR 0x0A] @ ''Size = 12'' @ [CHR 0x0A, CHR 0x0A] @ ''Path = b.txt''"
  have r: "blockHasRecord [''Path = a.txt'', ''Size = 12'']" "blockHasRecord [''Path = b.txt'']"
    by (simp_all add: blockHasRecord_def lastValue_def lineKeyValue_def trim_def isWhiteSpace_def startsWith_def)
  from parseSltString_sizes[of exampleRuntime ?out "[''Path = a.txt'', ''Size = 12'']" "''12''"]
  have a: "map size (parseSltString exampleRuntime ?out)
        = map blockSize (filter blockHasRecord (blocksOf [] (splitLines [] ?out)))"
    and b: "lastValue ''Size'' [''Path = a.txt'', ''Size = 12''] = Some ''12''
        \<longrightarrow> blockSize [''Path = a.txt'', ''Size = 12''] = parseInt10 ''12''"
    by blast+
  from parseSltString_sizes[of exampleRuntime ?out "[''Path = b.txt'']" "''12''"]
  have c: "lastValue ''Size'' [''Path = b.txt''] = None \<longrightarrow> blockSize [''Path = b.txt''] = Num 0"
    by blast
  from a b c r ex_blocks ex_lastValue parse_12 parse_53 show ?thesis
    by (simp add: isDigit_def)
qed

text \<open>
  Claim C9 as stated fails: the text \<open>Size = -5\<close> gives a record of size -5, the text
  \<open>Size = big\<close> gives a record whose size is \<open>NaN\<close>, and a size of 1 followed by 309 zeros
  gives a record whose size is \<open>Infinity\<close>.
\<close>

theorem parseSltString_negative_size_counterexample:
  "parseSltString exampleRuntime (''Path = a.txt'' @ [CHR 0x0A] @ ''Size = -5'')
     = [\<lparr>date = 0, size = Num (- 5), compressedSize = None, filename = ''a.txt'', encrypted = Some False, crc = None\<rparr>]
   \<and> parseSltString exampleRuntime (''Path = a.txt'' @ [CHR 0x0A] @ ''Size = big'')
     = [\<lparr>date = 0, size = NaN, compressedSize = None, filename = ''a.txt'', encrypted = Some False, crc = None\<rparr>]
   \<and> parseSltString exampleRuntime (''Path = a.txt'' @ [CHR 0x0A] @ ''Size = '' @ CHR ''1'' # replicate 309 (CHR ''0''))
     = [\<lparr>date = 0, size = PosInfinity, compressedSize = None, filename = ''a.txt'', encrypted = Some False, crc = None\<rparr>]"
  using ex_neg ex_nan ex_huge by simp

section \<open>POSIX normalization by segments\<close>







lemma wfStack_butlast: "wfStack st \<Longrightarrow> wfStack (butlast st)"
  by (auto simp: wfStack_def dest: in_set_butlastD)





















section \<open>Path validation and the worker\<close>


























lemma listEntriesInternal_encrypted:
  assumes "spawnResult e (executablePath w) [''l'', ''-slt'', full] = Spawned ev"
    and "errorEvent ev = None" and "closeEvent ev = Some c" and "codeOrZero c = 0"
    and "hasEncryptedFiles (parseSltString (rt e) (concat (stdoutChunks ev)))"
  shows "listEntriesInternal e w full =
           (w\<lparr>spawned := spawned w @ [[''l'', ''-slt'', full]]\<rparr>, Rejected (Archive (EncryptedArchiveError full)))"
  using assms
  by (simp add: listEntriesInternal_def Let_def onError_def settle_def listEntriesInternal_onClose_def)


lemma listEntries_encrypted:
  assumes idle: "activeOp w = UNDEFINED"
    and va: "verifyArchive e (resolve e a) = Inr ()"
    and sp: "spawnResult e (executablePath w) [''l'', ''-slt'', resolve e a] = Spawned ev"
    and ne: "errorEvent ev = None" and cl: "closeEvent ev = Some c" and z: "codeOrZero c = 0"
    and enc: "hasEncryptedFiles (parseSltString (rt e) (concat (stdoutChunks ev)))"
  shows "snd (listEntries e a w) = Rejected (Archive (EncryptedArchiveError (resolve e a)))
         \<and> spawned (fst (listEntries e a w)) = spawned w @ [[''l'', ''-slt'', resolve e a]]"
  using assms
  by (simp add: listEntries_def Let_def onError_def settle_def listEntries_onClose_def cleanup_def markExited_def)

lemma decompress_encrypted:
  assumes idle: "activeOp w = UNDEFINED"
    and va: "verifyArchive e (resolve e a) = Inr ()"
    and dir: "ensureDirectoryExists e (resolve e t) = Inr ()"
    and sp: "spawnResult e (executablePath w) [''l'', ''-slt'', resolve e a] = Spawned ev"
    and ne: "errorEvent ev = None" and cl: "closeEvent ev = Some c" and z: "codeOrZero c = 0"
    and enc: "hasEncryptedFiles (parseSltString (rt e) (concat (stdoutChunks ev)))"
  shows "snd (decompress e a t fl cb w) = Rejected (Archive (EncryptedArchiveError (resolve e a)))
         \<and> spawned (fst (decompress e a t fl cb w)) = spawned w @ [[''l'', ''-slt'', resolve e a]]"
proof -
  let ?w = "w\<lparr>lastMessage := [], currentArchivePath := a\<rparr>"
  from sp have sp': "spawnResult e (executablePath ?w) [''l'', ''-slt'', resolve e a] = Spawned ev" by simp
  note l = listEntriesInternal_encrypted[OF sp' ne cl z enc]
  show ?thesis using idle va dir l by (simp add: decompress_def Let_def)
qed



lemma cleanup_activeOp: "activeOp (cleanup w) = UNDEFINED"
  by (simp add: cleanup_def Let_def split: option.splits)

lemma createSuccessResult_optype: "optype (snd (createSuccessResult e w m fs b x)) = UNDEFINED"
  by (simp add: createSuccessResult_def Let_def cleanup_activeOp)

lemma onError_not_Resolved: "onError w ev \<noteq> Resolved r"
  by (simp add: onError_def split: option.splits)

lemma settle_onError_Resolved:
  "settle (onError w ev) q = Resolved r \<Longrightarrow> q = Resolved r"
  by (cases "onError w ev") (simp_all add: settle_def onError_not_Resolved)

lemma listEntries_onClose_resolved:
  "snd (listEntries_onClose e a full out err c w) = Resolved r \<Longrightarrow> optype r = UNDEFINED"
  by (auto simp: listEntries_onClose_def Let_def createSuccessResult_optype split: if_splits)

lemma decompress_onClose_resolved:
  "snd (decompress_onClose e src t full ft listed cb err c w) = Resolved r \<Longrightarrow> optype r = UNDEFINED"
  by (auto simp: decompress_onClose_def Let_def createSuccessResult_optype split: if_splits)

lemma compress_onClose_resolved:
  "snd (compress_onClose e srcs an full cb err c w) = Resolved r \<Longrightarrow> optype r = UNDEFINED"
  by (auto simp: compress_onClose_def Let_def createSuccessResult_optype split: if_splits option.splits)

lemma update_onClose_resolved:
  "snd (update_onClose e srcs an full err c w) = Resolved r \<Longrightarrow> optype r = UNDEFINED"
  by (auto simp: update_onClose_def Let_def createSuccessResult_optype split: if_splits option.splits)

lemma listEntries_resolved:
  assumes "snd (listEntries e a w) = Resolved r"
  shows "optype r = UNDEFINED"
proof -
  from assms obtain ev c w2 out where
    "settle (onError w2 ev) (snd (listEntries_onClose e a (resolve e a) out (stderrData ev) c (markExited w2))) = Resolved r"
    by (auto simp: listEntries_def Let_def onError_not_Resolved
        split: if_splits sum.splits spawn_result.splits option.splits)
  from settle_onError_Resolved[OF this] show ?thesis by (rule listEntries_onClose_resolved)
qed

lemma decompress_extract_resolved:
  assumes "snd (decompress_extract e src t full ft listed fl cb w) = Resolved r"
  shows "optype r = UNDEFINED"
proof -
  from assms obtain ev c w3 where
    "settle (onError w3 ev) (snd (decompress_onClose e src t full ft listed cb (stderrData ev) c (markExited w3))) = Resolved r"
    by (auto simp: decompress_extract_def Let_def onError_not_Resolved
        split: spawn_result.splits option.splits)
  from settle_onError_Resolved[OF this] show ?thesis by (rule decompress_onClose_resolved)
qed

lemma decompress_resolved:
  assumes "snd (decompress e a t fl cb w) = Resolved r"
  shows "optype r = UNDEFINED"
proof -
  from assms obtain src full ft listed wl where
    "snd (decompress_extract e src t full ft listed fl cb wl) = Resolved r"
    by (auto simp: decompress_def Let_def split: if_splits sum.splits promise.splits)
  then show ?thesis by (rule decompress_extract_resolved)
qed

lemma compress_resolved:
  assumes "snd (compress e srcs a lvl cb w) = Resolved r"
  shows "optype r = UNDEFINED"
proof -
  from assms obtain ev c w3 an full where
    "settle (onError w3 ev) (snd (compress_onClose e srcs an full cb (stderrData ev) c (markExited w3))) = Resolved r"
    by (auto simp: compress_def Let_def onError_not_Resolved
        split: if_splits sum.splits spawn_result.splits option.splits)
  from settle_onError_Resolved[OF this] show ?thesis by (rule compress_onClose_resolved)
qed

lemma update_resolved:
  assumes "snd (update e a srcs w) = Resolved r"
  shows "optype r = UNDEFINED"
proof -
  from assms obtain ev c w2 an full where
    "settle (onError w2 ev) (snd (update_onClose e srcs an full (stderrData ev) c (markExited w2))) = Resolved r"
    by (auto simp: update_def Let_def onError_not_Resolved
        split: if_splits sum.splits spawn_result.splits option.splits)
  from settle_onError_Resolved[OF this] show ?thesis by (rule update_onClose_resolved)
qed


lemma ex_encrypted_listing:
  "parseSltString exampleRuntime (''Path = a.txt'' @ [CHR 0x0A] @ ''Encrypted = +'')
   = [\<lparr>date = 0, size = Num 0, compressedSize = None, filename = ''a.txt'',
       encrypted = Some True, crc = None\<rparr>]"
  by (simp add: parse_defs)

lemma toLowerCase_zip: "toLowerCase ''.zip'' = ''.zip''"
  by code_simp

lemma ex_verify: "verifyArchive (exampleEnv l) p = Inr ()"
  by (simp add: verifyArchive_def exampleEnv_def toLowerCase_zip)

lemma ex_dir: "ensureDirectoryExists (exampleEnv l) p = Inr ()"
  by (simp add: ensureDirectoryExists_def exampleEnv_def)


lemma showNat_1: "showNat (Suc 0) = ''1''"
  by (simp add: showNat.simps)

lemma ex_spawn_list:
  "spawnResult (exampleEnv x) exe [''l'', ''-slt'', p]
     = Spawned \<lparr>stdoutChunks = [x], stderrData = [], errorEvent = None, closeEvent = Some (Some 0)\<rparr>"
  by (simp add: exampleEnv_def)

lemma ex_fields:
  "resolve (exampleEnv x) p = p" "rt (exampleEnv x) = exampleRuntime"
  by (simp_all add: exampleEnv_def)





















text \<open>
  Claim C4. When the listing process closes with exit code 0 (or \<open>null\<close>) and the parsed
  listing holds an encrypted entry, \<open>listEntries\<close> rejects with \<open>EncryptedArchiveError\<close>,
  and so does \<open>decompress\<close> once its target directory exists; in both the listing process is
  the only process spawned, so no extraction is started. The hypotheses say that the worker is
  idle, that the archive passes \<open>verifyArchive\<close> and that the listing process raised no
  \<open>error\<close> event.
\<close>

theorem encrypted_archive_rejected:
  assumes "activeOp w = UNDEFINED"
    and "verifyArchive e (resolve e ap) = Inr ()"
    and "spawnResult e (executablePath w) [''l'', ''-slt'', resolve e ap] = Spawned ev"
    and "errorEvent ev = None" and "closeEvent ev = Some c" and "codeOrZero c = 0"
    and "hasEncryptedFiles (parseSltString (rt e) (concat (stdoutChunks ev)))"
  shows "snd (listEntries e ap w) = Rejected (Archive (EncryptedArchiveError (resolve e ap)))
         \<and> spawned (fst (listEntries e ap w)) = spawned w @ [[''l'', ''-slt'', resolve e ap]]
         \<and> (ensureDirectoryExists e (resolve e t) = Inr () \<longrightarrow>
              snd (decompress e ap t fl cb w) = Rejected (Archive (EncryptedArchiveError (resolve e ap)))
              \<and> spawned (fst (decompress e ap t fl cb w)) = spawned w @ [[''l'', ''-slt'', resolve e ap]])"
  using listEntries_encrypted[OF assms] decompress_encrypted[OF assms(1,2) _ assms(3-7)]
  by blast

text \<open>The theorem at an archive whose listing marks \<open>a.txt\<close> as encrypted.\<close>

theorem encrypted_archive_rejected_witness:
  "hasEncryptedFiles (parseSltString exampleRuntime (''Path = a.txt'' @ [CHR 0x0A] @ ''Encrypted = +''))
   \<and> snd (listEntries (exampleEnv (''Path = a.txt'' @ [CHR 0x0A] @ ''Encrypted = +'')) ''/work/a.zip'' (newArchiveOps ''7za''))
       = Rejected (Archive (EncryptedArchiveError ''/work/a.zip''))
   \<and> snd (decompress (exampleEnv (''Path = a.txt'' @ [CHR 0x0A] @ ''Encrypted = +'')) ''/work/a.zip'' ''/out'' None False (newArchiveOps ''7za''))
       = Rejected (Archive (EncryptedArchiveError ''/work/a.zip''))
   \<and> spawned (fst (decompress (exampleEnv (''Path = a.txt'' @ [CHR 0x0A] @ ''Encrypted = +'')) ''/work/a.zip'' ''/out'' None False (newArchiveOps ''7za'')))
       = [[''l'', ''-slt'', ''/work/a.zip'']]"
proof -
  let ?out = "''Path = a.txt'' @ [CHR 0x0A] @ ''Encrypted = +''"
  let ?e = "exampleEnv ?out"
  let ?ev = "\<lparr>stdoutChunks = [?out], stderrData = [], errorEvent = None, closeEvent = Some (Some 0)\<rparr>"
  let ?w = "newArchiveOps ''7za''"
  have enc: "hasEncryptedFiles (parseSltString exampleRuntime ?out)"
    unfolding ex_encrypted_listing by (simp add: hasEncryptedFiles_def)
  have a1: "activeOp ?w = UNDEFINED" by (simp add: newArchiveOps_def)
  have a2: "verifyArchive ?e (resolve ?e ''/work/a.zip'') = Inr ()" by (rule ex_verify)
  have a3: "spawnResult ?e (executablePath ?w) [''l'', ''-slt'', resolve ?e ''/work/a.zip''] = Spawned ?ev"
    by (simp add: ex_spawn_list)
  have a4: "errorEvent ?ev = None" and a5: "closeEvent ?ev = Some (Some 0)" and a6: "codeOrZero (Some 0) = 0"
    by (simp_all add: codeOrZero_def)
  have a7: "hasEncryptedFiles (parseSltString (rt ?e) (concat (stdoutChunks ?ev)))"
    using enc by (simp add: ex_fields)
  have d: "ensureDirectoryExists ?e (resolve ?e ''/out'') = Inr ()" by (rule ex_dir)
  from encrypted_archive_rejected[OF a1 a2 a3 a4 a5 a6 a7, of "''/out''" None False] d
  have "snd (listEntries ?e ''/work/a.zip'' ?w) = Rejected (Archive (EncryptedArchiveError (resolve ?e ''/work/a.zip'')))
      \<and> snd (decompress ?e ''/work/a.zip'' ''/out'' None False ?w)
           = Rejected (Archive (EncryptedArchiveError (resolve ?e ''/work/a.zip'')))
      \<and> spawned (fst (decompress ?e ''/work/a.zip'' ''/out'' None False ?w))
           = spawned ?w @ [[''l'', ''-slt'', resolve ?e ''/work/a.zip'']]"
    by blast
  then have "snd (listEntries ?e ''/work/a.zip'' ?w) = Rejected (Archive (EncryptedArchiveError ''/work/a.zip''))
      \<and> snd (decompress ?e ''/work/a.zip'' ''/out'' None False ?w) = Rejected (Archive (EncryptedArchiveError ''/work/a.zip''))
      \<and> spawned (fst (decompress ?e ''/work/a.zip'' ''/out'' None False ?w)) = [[''l'', ''-slt'', ''/work/a.zip'']]"
    by (simp add: ex_fields newArchiveOps_def)
  with enc show ?thesis by blast
qed

text \<open>
  Claim C6 fails on the code. \<open>createSuccessResult\<close> calls \<open>cleanup\<close>, which resets
  \<open>activeOp\<close>, before it reads \<open>activeOp\<close> into the result, so the result of every
  operation that resolves carries the kind \<open>UNDEFINED\<close> (lemmas \<open>listEntries_resolved\<close>,
  \<open>decompress_resolved\<close>, \<open>compress_resolved\<close>, \<open>update_resolved\<close>). Here a listing of one
  entry resolves with \<open>UNDEFINED\<close> where the claim expects \<open>LIST\<close>.
\<close>

theorem listEntries_result_type_undefined:
  "snd (listEntries (exampleEnv (''Path = a.txt'' @ [CHR 0x0A] @ ''Size = 12'')) ''/work/a.zip'' (newArchiveOps ''7za''))
  = Resolved \<lparr>success = True, runtime = 3 / 2, optype = UNDEFINED,
      rmessage = ''Listed 1 entries in '' @ [CHR 0x27] @ ''a.zip'' @ [CHR 0x27] @ ''.'',
      files = [\<lparr>date = 0, size = Num 12, compressedSize = None, filename = ''a.txt'', encrypted = Some False, crc = None\<rparr>],
      basePath = Some ''/work/a.zip'', exitCode = Some 0\<rparr>"
proof -
  have n: "posix_normalize ''/work/a.zip'' = ''/work/a.zip''" by code_simp
  have l: "parseSltString (rt (exampleEnv (''Path = a.txt'' @ [CHR 0x0A] @ ''Size = 12''))) (''Path = a.txt'' @ [CHR 0x0A] @ ''Size = 12'')
     = [\<lparr>date = 0, size = Num 12, compressedSize = None, filename = ''a.txt'', encrypted = Some False, crc = None\<rparr>]"
    using ex_listing by (simp add: exampleEnv_def)
  have sp: "spawnResult (exampleEnv x) exe [''l'', ''-slt'', p]
     = Spawned \<lparr>stdoutChunks = [x], stderrData = [], errorEvent = None, closeEvent = Some (Some 0)\<rparr>" for x exe p
    by (simp add: exampleEnv_def)
  have r: "resolve (exampleEnv x) p = p" "basename (exampleEnv x) p = ''a.zip''"
     "startNow (exampleEnv x) = 1000" "endNow (exampleEnv x) = 2500" "normalize (exampleEnv x) = posix_normalize" for x p
    by (simp_all add: exampleEnv_def)
  show ?thesis
    using l n
    by (simp add: listEntries_def ex_verify sp r newArchiveOps_def Let_def onError_def settle_def
        listEntries_onClose_def codeOrZero_def hasEncryptedFiles_def createSuccessResult_def
        cleanup_def markExited_def normalizePath_def showNat_1)
qed

section \<open>The scheduler\<close>

lemma scanQueue_keys: "map fst (fst (snd (scanQueue n a q))) = map fst q"
  by (induction n a q rule: scanQueue.induct) (auto simp: case_prod_beta)

lemma admits_not_queued: "jstatus (snd a) \<noteq> QUEUED \<Longrightarrow> admits a b"
  by (simp add: admits_def)

lemma scanQueue_order:
  "sorted_wrt admits q \<Longrightarrow> sorted_wrt admits (fst (snd (scanQueue n a q)))"
proof (induction n a q rule: scanQueue.induct)
  case (1 n a)
  then show ?case by simp
next
  case (2 n a k j rest)
  from "2.prems" have rest: "sorted_wrt admits rest" by simp
  show ?case
  proof (cases "jstatus j \<noteq> QUEUED")
    case True
    with "2.IH"(1) rest have "sorted_wrt admits (fst (snd (scanQueue n a rest)))" by simp
    with True show ?thesis by (simp add: case_prod_beta admits_not_queued)
  next
    case False
    show ?thesis
    proof (cases "a + 1 \<ge> n")
      case True
      with False rest show ?thesis by (simp add: admits_not_queued)
    next
      case False2: False
      with False "2.IH"(2) rest have "sorted_wrt admits (fst (snd (scanQueue n (a + 1) rest)))" by simp
      with False False2 show ?thesis by (simp add: case_prod_beta admits_not_queued)
    qed
  qed
qed

lemma scanQueue_started:
  "a < n \<Longrightarrow> snd (snd (scanQueue n a q)) = take (nat (n - a)) (map fst (filter (\<lambda>kv. jstatus (snd kv) = QUEUED) q))"
proof (induction n a q rule: scanQueue.induct)
  case (1 n a)
  then show ?case by simp
next
  case (2 n a k j rest)
  show ?case
  proof (cases "jstatus j \<noteq> QUEUED")
    case True
    with "2.IH"(1) "2.prems" show ?thesis by (simp add: case_prod_beta)
  next
    case False
    show ?thesis
    proof (cases "a + 1 \<ge> n")
      case True
      with "2.prems" have "nat (n - a) = Suc 0" by simp
      with False True show ?thesis by simp
    next
      case False2: False
      then have s: "nat (n - a) = Suc (nat (n - (a + 1)))" by simp
      from False False2 "2.IH"(2) have
        "snd (snd (scanQueue n (a + 1) rest)) = take (nat (n - (a + 1))) (map fst (filter (\<lambda>kv. jstatus (snd kv) = QUEUED) rest))"
        by simp
      with False False2 s show ?thesis by (simp add: case_prod_beta)
    qed
  qed
qed

lemma scanQueue_queued:
  "a < n \<Longrightarrow> map fst (filter (\<lambda>kv. jstatus (snd kv) = QUEUED) (fst (snd (scanQueue n a q)))) = drop (nat (n - a)) (map fst (filter (\<lambda>kv. jstatus (snd kv) = QUEUED) q))"
proof (induction n a q rule: scanQueue.induct)
  case (1 n a)
  then show ?case by simp
next
  case (2 n a k j rest)
  show ?case
  proof (cases "jstatus j \<noteq> QUEUED")
    case True
    with "2.IH"(1) "2.prems" show ?thesis by (simp add: case_prod_beta)
  next
    case False
    show ?thesis
    proof (cases "a + 1 \<ge> n")
      case True
      with "2.prems" have "nat (n - a) = Suc 0" by simp
      with False True show ?thesis by simp
    next
      case False2: False
      then have s: "nat (n - a) = Suc (nat (n - (a + 1)))" by simp
      from False False2 "2.IH"(2) have
        "map fst (filter (\<lambda>kv. jstatus (snd kv) = QUEUED) (fst (snd (scanQueue n (a + 1) rest))))
           = drop (nat (n - (a + 1))) (map fst (filter (\<lambda>kv. jstatus (snd kv) = QUEUED) rest))"
        by simp
      with False False2 s show ?thesis by (simp add: case_prod_beta)
    qed
  qed
qed

lemma processQueue_started:
  "inflight (processQueue s) = inflight s @ take (nat (maxConcurrent s - activeJobs s)) (queuedJobs s)"
proof (cases "activeJobs s \<ge> maxConcurrent s")
  case True
  then show ?thesis by (simp add: processQueue_def)
next
  case False
  then have lt: "activeJobs s < maxConcurrent s" by simp
  from scanQueue_started[OF lt, of "queue s"] False show ?thesis
    by (simp add: processQueue_def queuedJobs_def case_prod_beta)
qed

lemma processQueue_queued:
  "queuedJobs (processQueue s) = drop (nat (maxConcurrent s - activeJobs s)) (queuedJobs s)"
proof (cases "activeJobs s \<ge> maxConcurrent s")
  case True
  then show ?thesis by (simp add: processQueue_def)
next
  case False
  then have lt: "activeJobs s < maxConcurrent s" by simp
  from scanQueue_queued[OF lt, of "queue s"] False show ?thesis
    by (simp add: processQueue_def queuedJobs_def case_prod_beta)
qed

lemma processQueue_queue_keys: "map fst (queue (processQueue s)) = map fst (queue s)"
  using scanQueue_keys[of "maxConcurrent s" "activeJobs s" "queue s"]
  by (simp add: processQueue_def case_prod_beta)

lemma processQueue_nextId: "nextId (processQueue s) = nextId s"
  by (simp add: processQueue_def case_prod_beta)

lemma processQueue_order: "sorted_wrt admits (queue s) \<Longrightarrow> sorted_wrt admits (queue (processQueue s))"
  using scanQueue_order[of "queue s" "maxConcurrent s" "activeJobs s"]
  by (simp add: processQueue_def case_prod_beta)

lemma processQueue_inv: "fifoInv s \<Longrightarrow> fifoInv (processQueue s)"
  unfolding fifoInv_def
  using processQueue_queue_keys[of s] processQueue_nextId[of s] processQueue_order[of s]
  by simp

lemma mapDelete_inv:
  assumes "fifoInv s" and "queue t = mapDelete k (queue s)" and "nextId t = nextId s"
  shows "fifoInv t"
proof -
  have "map fst (mapDelete k (queue s)) = filter (\<lambda>i. i \<noteq> k) (map fst (queue s))"
    by (simp add: mapDelete_def filter_map comp_def)
  moreover have "sorted_wrt admits (mapDelete k (queue s))"
    using assms(1) by (simp add: mapDelete_def fifoInv_def sorted_wrt_filter)
  ultimately show ?thesis using assms by (auto simp: fifoInv_def sorted_wrt_filter)
qed

lemma admits_queued_last: "jstatus (snd b) = QUEUED \<Longrightarrow> admits a b"
  by (simp add: admits_def)

lemma submitJob_inv:
  assumes "fifoInv s"
  shows "fifoInv (snd (submitJob op s))"
proof -
  let ?job = "\<lparr>jid = nextId s, jstatus = QUEUED, joperation = op, worker = None\<rparr>"
  from assms have fresh: "nextId s \<notin> set (map fst (queue s))" by (auto simp: fifoInv_def)
  then have ms: "mapSet (nextId s) ?job (queue s) = queue s @ [(nextId s, ?job)]"
    by (simp add: mapSet_def)
  have "fifoInv (s\<lparr>queue := mapSet (nextId s) ?job (queue s), nextId := Suc (nextId s)\<rparr>)"
    using assms unfolding ms
    by (auto simp: fifoInv_def sorted_wrt_append less_Suc_eq intro: admits_queued_last)
  from processQueue_inv[OF this] show ?thesis by (simp add: submitJob_def Let_def)
qed

lemma cancelJob_inv:
  assumes "fifoInv s"
  shows "fifoInv (snd (cancelJob k s))"
proof (cases "map_of (queue s) k")
  case None
  with assms show ?thesis by (simp add: cancelJob_def)
next
  case (Some job)
  let ?s1 = "if worker job \<noteq> None \<and> jstatus job = RUNNING
             then s\<lparr>workerCancels := workerCancels s @ [k], activeJobs := activeJobs s - 1\<rparr> else s"
  let ?s2 = "rejectJob k ''Job cancelled'' ?s1"
  have "fifoInv (?s2\<lparr>queue := mapDelete k (queue ?s2)\<rparr>)"
    by (rule mapDelete_inv[OF assms, where k = k]) (simp_all add: rejectJob_def)
  from processQueue_inv[OF this] Some show ?thesis by (simp add: cancelJob_def Let_def)
qed

lemma cancelAll_inv: "fifoInv (cancelAll s)"
  by (simp add: cancelAll_def fifoInv_def Let_def)

lemma mapDelete_map:
  "mapDelete k (map (\<lambda>kv. if fst kv = k then (fst kv, g (snd kv)) else kv) q) = mapDelete k q"
  by (induction q) (auto simp: mapDelete_def)

lemma settleJob_inv:
  assumes "fifoInv s"
  shows "fifoInv (settleJob k r s)"
proof -
  let ?st = "case r of Inl _ \<Rightarrow> ERROR | Inr _ \<Rightarrow> SUCCESS"
  let ?q1 = "map (\<lambda>kv. if fst kv = k then (fst kv, (snd kv)\<lparr>jstatus := ?st\<rparr>) else kv) (queue s)"
  let ?s1 = "s\<lparr>queue := ?q1,
               promises := (promises s)(k := settle (promises s k)
                              (case r of Inl err \<Rightarrow> Rejected err | Inr result0 \<Rightarrow> Resolved result0)),
               inflight := removeAll k (inflight s)\<rparr>"
  have d: "mapDelete k ?q1 = mapDelete k (queue s)" by (rule mapDelete_map)
  have "fifoInv (?s1\<lparr>queue := mapDelete k (queue ?s1), activeJobs := activeJobs ?s1 - 1\<rparr>)"
    by (rule mapDelete_inv[OF assms, where k = k]) (simp_all add: d)
  from processQueue_inv[OF this] show ?thesis
    by (simp add: settleJob_def cleanupJob_def Let_def)
qed

lemma reachable_inv: "reachable n s \<Longrightarrow> fifoInv s"
proof (induction rule: reachable.induct)
  case (init exe)
  then show ?case by (simp add: fifoInv_def newArchiveService_def)
next
  case (submit s op)
  then show ?case by (simp add: submitJob_inv)
next
  case (cancel_job s k)
  then show ?case by (simp add: cancelJob_inv)
next
  case (cancel_all s)
  then show ?case by (simp add: cancelAll_inv)
next
  case (settled s k r)
  then show ?case by (simp add: settleJob_inv)
qed

text \<open>
  Claim C5. In every reachable state the queue lists the tracked jobs in submission order
  (the identifiers, handed out in submission order, increase along the queue) and no
  Queued job stands before a Running one, so no job was started ahead of an
  earlier-submitted job that is still Queued. A dispatch pass starts, in queue order,
  the first Queued jobs up to the free capacity \<open>maxConcurrent - activeJobs\<close>, and leaves the
  other Queued jobs Queued.
\<close>

theorem fifo_admission:
  "(reachable n s \<longrightarrow>
      sorted_wrt (<) (map fst (queue s))
      \<and> (\<forall>i j. i < j \<and> j < length (queue s) \<and> jstatus (snd (queue s ! j)) = RUNNING
                 \<longrightarrow> jstatus (snd (queue s ! i)) \<noteq> QUEUED))
   \<and> inflight (processQueue s) = inflight s @ take (nat (maxConcurrent s - activeJobs s)) (queuedJobs s)
   \<and> queuedJobs (processQueue s) = drop (nat (maxConcurrent s - activeJobs s)) (queuedJobs s)"
proof (intro conjI impI)
  assume "reachable n s"
  then have inv: "fifoInv s" by (rule reachable_inv)
  then show "sorted_wrt (<) (map fst (queue s))" by (simp add: fifoInv_def)
  from inv have "sorted_wrt admits (queue s)" by (simp add: fifoInv_def)
  then show "\<forall>i j. i < j \<and> j < length (queue s) \<and> jstatus (snd (queue s ! j)) = RUNNING
                 \<longrightarrow> jstatus (snd (queue s ! i)) \<noteq> QUEUED"
    by (auto simp: sorted_wrt_iff_nth_less admits_def)
next
  show "inflight (processQueue s) = inflight s @ take (nat (maxConcurrent s - activeJobs s)) (queuedJobs s)"
    by (rule processQueue_started)
  show "queuedJobs (processQueue s) = drop (nat (maxConcurrent s - activeJobs s)) (queuedJobs s)"
    by (rule processQueue_queued)
qed

lemmas sched_defs = submitJob_def processQueue_def mapSet_def mapDelete_def newArchiveService_def
  cancelJob_def cancelAll_def settleJob_def cleanupJob_def rejectJob_def settle_def Let_def
  runningJobs_def queuedJobs_def

text \<open>
  The theorem at a service with ceiling 2 after three submissions: jobs 0 and 1 are
  Running, job 2 is Queued.
\<close>

theorem fifo_admission_witness:
  "reachable 2 (snd (submitJob (OpList ''c.zip'') (snd (submitJob (OpList ''b.zip'')
       (snd (submitJob (OpList ''a.zip'') (newArchiveService ''7za'' 2)))))))
   \<and> map (\<lambda>kv. (fst kv, jstatus (snd kv)))
        (queue (snd (submitJob (OpList ''c.zip'') (snd (submitJob (OpList ''b.zip'')
           (snd (submitJob (OpList ''a.zip'') (newArchiveService ''7za'' 2))))))))
       = [(0, RUNNING), (1, RUNNING), (2, QUEUED)]
   \<and> sorted_wrt (<) (map fst (queue (snd (submitJob (OpList ''c.zip'') (snd (submitJob (OpList ''b.zip'')
           (snd (submitJob (OpList ''a.zip'') (newArchiveService ''7za'' 2)))))))))
   \<and> jstatus (snd (queue (snd (submitJob (OpList ''c.zip'') (snd (submitJob (OpList ''b.zip'')
           (snd (submitJob (OpList ''a.zip'') (newArchiveService ''7za'' 2))))))) ! 0)) \<noteq> QUEUED"
proof -
  let ?s = "snd (submitJob (OpList ''c.zip'') (snd (submitJob (OpList ''b.zip'')
       (snd (submitJob (OpList ''a.zip'') (newArchiveService ''7za'' 2))))))"
  have r: "reachable 2 ?s"
    by (intro reachable.submit reachable.init)
  have q: "map (\<lambda>kv. (fst kv, jstatus (snd kv))) (queue ?s) = [(0, RUNNING), (1, RUNNING), (2, QUEUED)]"
    by (simp add: sched_defs)
  from q have "length (map (\<lambda>kv. (fst kv, jstatus (snd kv))) (queue ?s)) = 3" by simp
  then have len: "length (queue ?s) = 3" by simp
  from q have "map (\<lambda>kv. (fst kv, jstatus (snd kv))) (queue ?s) ! 1 = (1, RUNNING)" by simp
  with len have ru: "jstatus (snd (queue ?s ! 1)) = RUNNING" by simp
  from fifo_admission[of 2 ?s] r
  have a: "sorted_wrt (<) (map fst (queue ?s))"
    and b: "\<forall>i j. i < j \<and> j < length (queue ?s) \<and> jstatus (snd (queue ?s ! j)) = RUNNING
                 \<longrightarrow> jstatus (snd (queue ?s ! i)) \<noteq> QUEUED"
    by blast+
  from b len ru have "jstatus (snd (queue ?s ! 0)) \<noteq> QUEUED"
    by (metis zero_less_one one_less_numeral_iff semiring_norm(77))
  with r q a show ?thesis by blast
qed

lemma scanQueue_workers:
  "\<forall>kv \<in> set q. worker (snd kv) = None \<Longrightarrow> \<forall>kv \<in> set (fst (snd (scanQueue n a q))). worker (snd kv) = None"
  by (induction n a q rule: scanQueue.induct) (auto simp: case_prod_beta)

lemma processQueue_workers:
  "\<forall>kv \<in> set (queue s). worker (snd kv) = None \<Longrightarrow> \<forall>kv \<in> set (queue (processQueue s)). worker (snd kv) = None"
  using scanQueue_workers[of "queue s" "maxConcurrent s" "activeJobs s"]
  by (simp add: processQueue_def case_prod_beta)

lemma workers_null: "reachable n s \<Longrightarrow> \<forall>kv \<in> set (queue s). worker (snd kv) = None"
proof (induction rule: reachable.induct)
  case (init exe)
  then show ?case by (simp add: newArchiveService_def)
next
  case (submit s op)
  let ?job = "\<lparr>jid = nextId s, jstatus = QUEUED, joperation = op, worker = None\<rparr>"
  have "\<forall>kv \<in> set (mapSet (nextId s) ?job (queue s)). worker (snd kv) = None"
    using submit.IH by (auto simp: mapSet_def)
  then have "\<forall>kv \<in> set (queue (s\<lparr>queue := mapSet (nextId s) ?job (queue s), nextId := Suc (nextId s)\<rparr>)).
               worker (snd kv) = None" by simp
  from processQueue_workers[OF this] show ?case by (simp add: submitJob_def Let_def)
next
  case (cancel_job s k)
  show ?case
  proof (cases "map_of (queue s) k")
    case None
    with cancel_job.IH show ?thesis by (simp add: cancelJob_def)
  next
    case (Some job)
    let ?s1 = "if worker job \<noteq> None \<and> jstatus job = RUNNING
               then s\<lparr>workerCancels := workerCancels s @ [k], activeJobs := activeJobs s - 1\<rparr> else s"
    let ?s2 = "rejectJob k ''Job cancelled'' ?s1"
    have "\<forall>kv \<in> set (queue (?s2\<lparr>queue := mapDelete k (queue ?s2)\<rparr>)). worker (snd kv) = None"
      using cancel_job.IH by (auto simp: rejectJob_def mapDelete_def)
    from processQueue_workers[OF this] Some show ?thesis by (simp add: cancelJob_def Let_def)
  qed
next
  case (cancel_all s)
  then show ?case by (simp add: cancelAll_def Let_def)
next
  case (settled s k r)
  let ?st = "case r of Inl _ \<Rightarrow> ERROR | Inr _ \<Rightarrow> SUCCESS"
  let ?q1 = "map (\<lambda>kv. if fst kv = k then (fst kv, (snd kv)\<lparr>jstatus := ?st\<rparr>) else kv) (queue s)"
  let ?s1 = "s\<lparr>queue := ?q1,
               promises := (promises s)(k := settle (promises s k)
                              (case r of Inl err \<Rightarrow> Rejected err | Inr result0 \<Rightarrow> Resolved result0)),
               inflight := removeAll k (inflight s)\<rparr>"
  have "\<forall>kv \<in> set (queue (?s1\<lparr>queue := mapDelete k (queue ?s1), activeJobs := activeJobs ?s1 - 1\<rparr>)).
          worker (snd kv) = None"
    using settled.IH by (auto simp: mapDelete_def)
  from processQueue_workers[OF this] show ?case
    by (simp add: settleJob_def cleanupJob_def Let_def)
qed

text \<open>
  Claim C7 fails on the code. \<open>submitJob\<close> creates the job with \<open>worker: null\<close> and nothing
  assigns the field afterwards: the worker lives only inside the thunk of the job. So the
  worker of every job is null in every reachable state (lemma \<open>workers_null\<close>), also
  while the job is Running, as after one submission to a service with ceiling 1.
\<close>

theorem running_job_worker_null:
  "map (\<lambda>kv. (fst kv, jstatus (snd kv), worker (snd kv)))
     (queue (snd (submitJob (OpList ''a.zip'') (newArchiveService ''7za'' 1))))
   = [(0, RUNNING, None)]"
  by (simp add: sched_defs)

text \<open>
  Claim C3 fails on the code. With ceiling 1, job 0 Running and job 1 Queued,
  \<open>cancelJob 0\<close> returns true, rejects the promise of job 0 and removes the job, but the
  guard \<open>job.worker && job.status === RUNNING\<close> is false because the worker is null
  (the defect of claim C7): no worker receives \<open>cancel()\<close>, the running count stays 1 and
  job 1 stays Queued until the operation of job 0 settles.
\<close>

theorem cancelJob_running_keeps_slot:
  "fst (cancelJob 0 (snd (submitJob (OpList ''b.zip'') (snd (submitJob (OpList ''a.zip'') (newArchiveService ''7za'' 1))))))
   \<and> map (\<lambda>kv. (fst kv, jstatus (snd kv)))
     (queue (snd (cancelJob 0 (snd (submitJob (OpList ''b.zip'') (snd (submitJob (OpList ''a.zip'') (newArchiveService ''7za'' 1))))))))
   = [(1, QUEUED)]
   \<and> activeJobs (snd (cancelJob 0 (snd (submitJob (OpList ''b.zip'') (snd (submitJob (OpList ''a.zip'') (newArchiveService ''7za'' 1))))))) = 1
   \<and> workerCancels (snd (cancelJob 0 (snd (submitJob (OpList ''b.zip'') (snd (submitJob (OpList ''a.zip'') (newArchiveService ''7za'' 1))))))) = []
   \<and> promises (snd (cancelJob 0 (snd (submitJob (OpList ''b.zip'') (snd (submitJob (OpList ''a.zip'') (newArchiveService ''7za'' 1))))))) 0
       = Rejected (PlainError ''Job cancelled'')"
  by (simp add: sched_defs)

lemma c2_inflight: "0 \<in> set (inflight (snd (submitJob (OpList ''b.zip'') (cancelAll (snd (submitJob (OpList ''a.zip'') (newArchiveService ''7za'' 1)))))))"
  by (simp add: sched_defs)

text \<open>
  Claim C2 fails on the code. \<open>cancelAll\<close> sets the running count to 0 while the operations
  it cancelled are still in flight, and \<open>cleanupJob\<close> decrements the count again when one of
  them settles. With ceiling 1: submit job 0, \<open>cancelAll\<close>, submit job 1 (it starts),
  the operation of job 0 settles (the count goes back to 0), submit job 2: jobs 1 and 2
  are both Running.
\<close>

theorem cancelAll_breaks_ceiling:
  "reachable 1 (snd (submitJob (OpList ''c.zip'') (settleJob 0 (Inl (PlainError ''x''))
      (snd (submitJob (OpList ''b.zip'') (cancelAll (snd (submitJob (OpList ''a.zip'') (newArchiveService ''7za'' 1)))))))))
   \<and> runningJobs (snd (submitJob (OpList ''c.zip'') (settleJob 0 (Inl (PlainError ''x''))
      (snd (submitJob (OpList ''b.zip'') (cancelAll (snd (submitJob (OpList ''a.zip'') (newArchiveService ''7za'' 1))))))))) = [1, 2]"
proof
  show "reachable 1 (snd (submitJob (OpList ''c.zip'') (settleJob 0 (Inl (PlainError ''x''))
      (snd (submitJob (OpList ''b.zip'') (cancelAll (snd (submitJob (OpList ''a.zip'') (newArchiveService ''7za'' 1)))))))))"
    by (intro reachable.submit reachable.settled reachable.cancel_all reachable.init c2_inflight)
  show "runningJobs (snd (submitJob (OpList ''c.zip'') (settleJob 0 (Inl (PlainError ''x''))
      (snd (submitJob (OpList ''b.zip'') (cancelAll (snd (submitJob (OpList ''a.zip'') (newArchiveService ''7za'' 1))))))))) = [1, 2]"
    by (simp add: sched_defs)
qed

end
